theory Spec2Isabelle
  imports Main "HOL-Library.AList"
begin

section \<open>Text\<close>

text \<open>
  Python text (\<^verbatim>\<open>str\<close>) is modelled by its UTF-8 encoding, one \<^typ>\<open>char\<close> per byte.
  All characters the program looks for (newline, slash, dot, brackets, backticks) are
  ASCII, and an ASCII byte never occurs inside a multi-byte sequence, so searching the
  bytes finds exactly the positions that searching the code points finds.
\<close>

abbreviation NL :: char where
  "NL \<equiv> CHR 0x0A"

abbreviation CR :: char where
  "CR \<equiv> CHR 0x0D"

text \<open>\<^verbatim>\<open>sep.join(pieces)\<close>.\<close>

fun join_with :: "string \<Rightarrow> string list \<Rightarrow> string" where
  "join_with sep [] = []"
| "join_with sep [x] = x"
| "join_with sep (x # y # ys) = x @ sep @ join_with sep (y # ys)"

subsection \<open>\<^verbatim>\<open>os.path\<close> on POSIX\<close>

text \<open>
  \<^verbatim>\<open>os.path.basename(p)\<close>: everything after the last slash.
\<close>

definition basename :: "string \<Rightarrow> string" where
  "basename p = rev (takeWhile (\<lambda>c. c \<noteq> CHR ''/'') (rev p))"

text \<open>
  \<^verbatim>\<open>os.path.dirname(p)\<close>: everything up to and including the last slash, with the
  trailing slashes removed unless the head consists of slashes only.
\<close>

definition dirname :: "string \<Rightarrow> string" where
  "dirname p =
     (let head = rev (dropWhile (\<lambda>c. c \<noteq> CHR ''/'') (rev p)) in
      if head \<noteq> [] \<and> \<not> list_all (\<lambda>c. c = CHR ''/'') head
      then rev (dropWhile (\<lambda>c. c = CHR ''/'') (rev head))
      else head)"

text \<open>
  \<^verbatim>\<open>os.path.join(a, b)\<close>: an absolute \<open>b\<close> replaces \<open>a\<close>; otherwise \<open>b\<close> is appended, with
  a slash in between unless \<open>a\<close> is empty or already ends in one.
\<close>

definition path_join :: "string \<Rightarrow> string \<Rightarrow> string" where
  "path_join a b =
     (if take 1 b = ''/'' then b
      else if a = [] \<or> last a = CHR ''/'' then a @ b
      else a @ ''/'' @ b)"

text \<open>
  \<^verbatim>\<open>os.path.splitext(p)\<close>, second component: the text from the last dot on, when that
  dot lies after the last slash and some character of the file name before it is not a
  dot; the empty text otherwise.
\<close>

definition splitext_ext :: "string \<Rightarrow> string" where
  "splitext_ext p =
     (let name = basename p;
          stem = rev (drop 1 (dropWhile (\<lambda>c. c \<noteq> CHR ''.'') (rev name)));
          ext = rev (takeWhile (\<lambda>c. c \<noteq> CHR ''.'') (rev name))
      in if CHR ''.'' \<in> set name \<and> \<not> list_all (\<lambda>c. c = CHR ''.'') stem
         then CHR ''.'' # ext else [])"

subsection \<open>\<^verbatim>\<open>re.sub\<close>\<close>

text \<open>
  \<^verbatim>\<open>re.sub(pattern, repl, s)\<close> for a pattern without anchors that cannot match the
  empty text: scan from the left; where the pattern matches at the current position,
  emit the replacement and continue after the match, otherwise emit the current
  character and move one position on. The pattern is given by a matcher that returns,
  for the text from the current position on, the length of the match and its
  replacement.
\<close>

function re_sub :: "(string \<Rightarrow> (nat \<times> string) option) \<Rightarrow> string \<Rightarrow> string" where
  "re_sub m [] = []"
| "re_sub m (c # cs) =
     (case m (c # cs) of
        None \<Rightarrow> c # re_sub m cs
      | Some (n, r) \<Rightarrow>
          if 0 < n then r @ re_sub m (drop n (c # cs)) else c # re_sub m cs)"
  by pat_completeness auto
termination
  by (relation "measure (\<lambda>(m, s). length s)") auto

text \<open>
  \<^verbatim>\<open>\n{3,}\<close> replaced by \<^verbatim>\<open>\n\n\<close>: the quantifier is greedy, so a match is a maximal
  run of at least three newlines.
\<close>

definition nl_run :: "string \<Rightarrow> nat" where
  "nl_run s = length (takeWhile (\<lambda>c. c = NL) s)"

definition match_blank_lines :: "string \<Rightarrow> (nat \<times> string) option" where
  "match_blank_lines s = (if 3 \<le> nl_run s then Some (nl_run s, [NL, NL]) else None)"

definition collapse_blank_lines :: "string \<Rightarrow> string" where
  "collapse_blank_lines s = re_sub match_blank_lines s"

text \<open>
  \<^verbatim>\<open>!\[\]\(([^)]+)\)\<close> replaced by \<^verbatim>\<open>![\<close>\<open>\<dots>\<close>\<^verbatim>\<open>](\1)\<close>, the label being the two
  characters U+56FE U+7247: after \<^verbatim>\<open>![](\<close> a non-empty run of characters other than
  a closing parenthesis, then the closing parenthesis.
\<close>

definition image_label :: string where
  "image_label = [CHR 0xE5, CHR 0x9B, CHR 0xBE, CHR 0xE7, CHR 0x89, CHR 0x87]"

definition match_bare_image :: "string \<Rightarrow> (nat \<times> string) option" where
  "match_bare_image s =
     (let rest = drop 4 s;
          body = takeWhile (\<lambda>c. c \<noteq> CHR '')'') rest
      in if take 4 s = ''![]('' \<and> body \<noteq> [] \<and> length body < length rest
         then Some (4 + length body + 1, ''!['' @ image_label @ '']('' @ body @ '')'')
         else None)"

text \<open>
  \<^verbatim>\<open>\s\<close> on Python text matches the ASCII white space and the Unicode white space
  U+001C..U+001F, U+0085, U+00A0, U+1680, U+2000..U+200A, U+2028, U+2029, U+202F,
  U+205F, U+3000. \<open>ws_len s\<close> is the number of bytes of the white-space character at
  the head of \<open>s\<close>, and 0 when there is none.
\<close>

definition ws_len :: "string \<Rightarrow> nat" where
  "ws_len s =
     (case s of
        [] \<Rightarrow> 0
      | a # r \<Rightarrow>
          let x = (of_char a :: nat) in
          if (9 \<le> x \<and> x \<le> 13) \<or> (28 \<le> x \<and> x \<le> 32) then 1
          else (case r of
             [] \<Rightarrow> 0
           | b # r2 \<Rightarrow>
               let y = (of_char b :: nat) in
               if x = 0xC2 \<and> (y = 0x85 \<or> y = 0xA0) then 2
               else (case r2 of
                  [] \<Rightarrow> 0
                | c # _ \<Rightarrow>
                    let z = (of_char c :: nat) in
                    if (x = 0xE1 \<and> y = 0x9A \<and> z = 0x80)
                       \<or> (x = 0xE2 \<and> y = 0x80 \<and>
                           ((0x80 \<le> z \<and> z \<le> 0x8A) \<or> z = 0xA8 \<or> z = 0xA9 \<or> z = 0xAF))
                       \<or> (x = 0xE2 \<and> y = 0x81 \<and> z = 0x9F)
                       \<or> (x = 0xE3 \<and> y = 0x80 \<and> z = 0x80)
                    then 3 else 0)))"

text \<open>The number of bytes of the maximal run of white space at the head.\<close>

function ws_run :: "string \<Rightarrow> nat" where
  "ws_run s =
     (if 0 < ws_len s \<and> ws_len s \<le> length s then ws_len s + ws_run (drop (ws_len s) s)
      else 0)"
  by pat_completeness auto
termination
  by (relation "measure length") auto

text \<open>
  \<^verbatim>\<open>```\s+```\<close> replaced by the empty text: three backticks, a maximal non-empty run
  of white space, three backticks.
\<close>

definition match_empty_fence :: "string \<Rightarrow> (nat \<times> string) option" where
  "match_empty_fence s =
     (let n = ws_run (drop 3 s) in
      if take 3 s = ''```'' \<and> 0 < n \<and> take 3 (drop (3 + n) s) = ''```''
      then Some (3 + n + 3, []) else None)"

text \<open>The three post-processing substitutions of a converted fragment, in order.\<close>

definition postprocess :: "string \<Rightarrow> string" where
  "postprocess md =
     re_sub match_empty_fence (re_sub match_bare_image (collapse_blank_lines md))"

text \<open>A text is settled when no run of newlines in it has three or more members.\<close>

fun settled :: "string \<Rightarrow> bool" where
  "settled [] = True"
| "settled (c # cs) = (nl_run (c # cs) < 3 \<and> settled cs)"

text \<open>
  Reading a text file back with \<^verbatim>\<open>open(path, 'r')\<close>: Python's universal newlines turn
  \<^verbatim>\<open>\r\n\<close> and a lone \<^verbatim>\<open>\r\<close> into \<^verbatim>\<open>\n\<close>. (Writing on POSIX leaves the text as it is.)
\<close>

fun universal_newlines :: "string \<Rightarrow> string" where
  "universal_newlines [] = []"
| "universal_newlines [c] = (if c = CR then [NL] else [c])"
| "universal_newlines (c # d # ds) =
     (if c = CR \<and> d = NL then NL # universal_newlines ds
      else if c = CR then NL # universal_newlines (d # ds)
      else c # universal_newlines (d # ds))"

subsection \<open>\<^verbatim>\<open>pathlib\<close> on POSIX\<close>

fun split_on :: "char \<Rightarrow> string \<Rightarrow> string list" where
  "split_on sep [] = [[]]"
| "split_on sep (c # cs) =
     (if c = sep then [] # split_on sep cs
      else (case split_on sep cs of
              [] \<Rightarrow> [[c]]
            | w # ws \<Rightarrow> (c # w) # ws))"

text \<open>
  \<^verbatim>\<open>str(Path(s))\<close>: empty and \<^verbatim>\<open>.\<close> components are dropped, a leading slash is
  kept (exactly two leading slashes are kept as two), and the empty path is \<^verbatim>\<open>.\<close>.
\<close>

definition pure_path :: "string \<Rightarrow> string" where
  "pure_path s =
     (let parts = filter (\<lambda>p. p \<noteq> [] \<and> p \<noteq> ''.'') (split_on (CHR ''/'') s);
          root = (if take 1 s = ''/''
                  then (if take 2 s = ''//'' \<and> take 3 s \<noteq> ''///'' then ''//'' else ''/'')
                  else [])
      in if root = [] \<and> parts = [] then ''.'' else root @ join_with ''/'' parts)"

section \<open>Markup trees\<close>

subsection \<open>\<^verbatim>\<open>xml.etree.ElementTree\<close>\<close>

text \<open>
  An element has a tag (with its namespace in braces), attributes, the text before its
  first child (\<open>None\<close> when there is none) and children.
\<close>

datatype xml = Elem (tag: string) (attrib: "(string \<times> string) list")
  (elem_text: "string option") (children: "xml list")

text \<open>The proper descendants of an element in document order.\<close>

fun descendants :: "xml \<Rightarrow> xml list" where
  "descendants (Elem t a x cs) = concat (map (\<lambda>c. c # descendants c) cs)"

text \<open>\<^verbatim>\<open>e.findall('.//t')\<close>, \<^verbatim>\<open>e.find('.//t')\<close> and \<^verbatim>\<open>e.get(k)\<close>.\<close>

definition findall_elem :: "string \<Rightarrow> xml \<Rightarrow> xml list" where
  "findall_elem t e = filter (\<lambda>d. tag d = t) (descendants e)"

definition find_elem :: "string \<Rightarrow> xml \<Rightarrow> xml option" where
  "find_elem t e = (case findall_elem t e of [] \<Rightarrow> None | d # _ \<Rightarrow> Some d)"

definition get_attr :: "xml \<Rightarrow> string \<Rightarrow> string option" where
  "get_attr e k = map_of (attrib e) k"

definition NS_container :: string where
  "NS_container = ''{urn:oasis:names:tc:opendocument:xmlns:container}''"

definition NS_opf :: string where
  "NS_opf = ''{http://www.idpf.org/2007/opf}''"

definition NS_dc :: string where
  "NS_dc = ''{http://purl.org/dc/elements/1.1/}''"

subsection \<open>\<^verbatim>\<open>BeautifulSoup\<close>\<close>

text \<open>
  A parsed content document is a list of top-level nodes; a node is a piece of text or
  a tag with a name, attributes and contents.
\<close>

datatype html = Text string
  | Tag (tag_name: string) (attrs: "(string \<times> string) list") (contents: "html list")

section \<open>Converting one content document\<close>

subsection \<open>Image references\<close>

text \<open>
  The body of the loop over \<^verbatim>\<open>soup.find_all('img')\<close>: an element without \<^verbatim>\<open>src\<close>, or
  with an empty one, is not touched; otherwise the value itself is looked up in
  \<open>image_map\<close>, then its base name.
\<close>

definition rewrite_src :: "(string \<rightharpoonup> string) \<Rightarrow> (string \<times> string) list \<Rightarrow> (string \<times> string) list"
  where
  "rewrite_src image_map as =
     (case map_of as ''src'' of
        None \<Rightarrow> as
      | Some src \<Rightarrow>
          if src = [] then as
          else (case image_map src of
                  Some v \<Rightarrow> AList.update ''src'' v as
                | None \<Rightarrow>
                    (case image_map (basename src) of
                       Some v \<Rightarrow> AList.update ''src'' v as
                     | None \<Rightarrow> as)))"

fun rewrite_images :: "(string \<rightharpoonup> string) \<Rightarrow> html \<Rightarrow> html" where
  "rewrite_images image_map (Text s) = Text s"
| "rewrite_images image_map (Tag n as cs) =
     Tag n (if n = ''img'' then rewrite_src image_map as else as)
       (map (rewrite_images image_map) cs)"

text \<open>
  The \<^verbatim>\<open>src\<close> attribute of every \<^verbatim>\<open>img\<close> element, in document order
  (\<^verbatim>\<open>[img.get('src') for img in soup.find_all('img')]\<close>).
\<close>

fun img_srcs :: "html \<Rightarrow> string option list" where
  "img_srcs (Text s) = []"
| "img_srcs (Tag n as cs) =
     (if n = ''img'' then [map_of as ''src''] else []) @ concat (map img_srcs cs)"

text \<open>
  What the specification says a reference becomes: the entry for the literal value,
  else the entry for its base name, else the value itself.
\<close>

definition lookup_reference :: "(string \<rightharpoonup> string) \<Rightarrow> string \<Rightarrow> string" where
  "lookup_reference image_map src =
     (case image_map src of
        Some v \<Rightarrow> v
      | None \<Rightarrow> (case image_map (basename src) of Some v \<Rightarrow> v | None \<Rightarrow> src))"

subsection \<open>Headings\<close>

definition heading_names :: "string list" where
  "heading_names = [''h1'', ''h2'', ''h3'', ''h4'', ''h5'', ''h6'']"

definition is_heading :: "string \<Rightarrow> bool" where
  "is_heading n = (n \<in> set heading_names)"

text \<open>The tag made by \<^verbatim>\<open>soup.new_tag('p')\<close> with its string set to the empty text.\<close>

definition new_tag :: html where
  "new_tag = Tag ''p'' [] [Text []]"

text \<open>
  The loop \<^verbatim>\<open>for i, heading in enumerate(soup.find_all(['h1', ..., 'h6']))\<close>. The
  headings are visited in document order; \<open>i\<close> is the number of headings visited
  before this one; for \<open>i > 0\<close> the new tag becomes the sibling just before the heading.
  The result is the rewritten nodes together with the index for the next heading.
\<close>

fun insert_before_node :: "nat \<Rightarrow> html \<Rightarrow> html list \<times> nat"
  and insert_before_nodes :: "nat \<Rightarrow> html list \<Rightarrow> html list \<times> nat" where
  "insert_before_node i (Text s) = ([Text s], i)"
| "insert_before_node i (Tag n as cs) =
     (if is_heading n
      then (let (cs', j) = insert_before_nodes (Suc i) cs
            in ((if 0 < i then [new_tag] else []) @ [Tag n as cs'], j))
      else (let (cs', j) = insert_before_nodes i cs in ([Tag n as cs'], j)))"
| "insert_before_nodes i [] = ([], i)"
| "insert_before_nodes i (h # hs) =
     (let (h', j) = insert_before_node i h;
          (hs', k) = insert_before_nodes j hs
      in (h' @ hs', k))"

text \<open>Within one call the enumeration starts at 0.\<close>

definition separate_headings :: "html list \<Rightarrow> html list" where
  "separate_headings soup = fst (insert_before_nodes 0 soup)"

text \<open>
  \<^verbatim>\<open>soup.find_all(['h1', ..., 'h6'])\<close>, and for every heading in document order the
  sibling immediately before it (\<open>None\<close> for a first child).
\<close>

fun find_all_headings :: "html \<Rightarrow> html list" where
  "find_all_headings (Text s) = []"
| "find_all_headings (Tag n as cs) =
     (if is_heading n then [Tag n as cs] else []) @ concat (map find_all_headings cs)"

fun before_heading :: "html option \<Rightarrow> html \<Rightarrow> html option list"
  and before_headings :: "html option \<Rightarrow> html list \<Rightarrow> html option list" where
  "before_heading prev (Text s) = []"
| "before_heading prev (Tag n as cs) =
     (if is_heading n then [prev] else []) @ before_headings None cs"
| "before_headings prev [] = []"
| "before_headings prev (h # hs) = before_heading prev h @ before_headings (Some h) hs"

text \<open>
  What the specification describes: one count of headings for the whole corpus, carried
  from each document to the next.
\<close>

fun separate_headings_corpus :: "nat \<Rightarrow> html list list \<Rightarrow> html list list" where
  "separate_headings_corpus i [] = []"
| "separate_headings_corpus i (d # ds) =
     fst (insert_before_nodes i d) # separate_headings_corpus (snd (insert_before_nodes i d)) ds"

subsection \<open>The conversion\<close>

text \<open>
  The libraries and the surroundings of a run: the XML parser (\<open>None\<close> when it raises),
  the HTML parser, the serialiser \<^verbatim>\<open>str(soup)\<close>, the configured \<^verbatim>\<open>h2t.handle\<close> (taken
  as a function of the markup it is given), whether a path can be opened for writing,
  the working directory, the directory \<^verbatim>\<open>tempfile.mkdtemp()\<close> returns, and whether an
  event loop is running.
\<close>

record env =
  fromstring :: "string \<Rightarrow> xml option"
  BeautifulSoup :: "string \<Rightarrow> html list option"
  soup_str :: "html list \<Rightarrow> string"
  h2t_handle :: "string \<Rightarrow> string option"
  can_open :: "string \<Rightarrow> bool"
  getcwd :: string
  mkdtemp :: string
  loop_running :: bool

type_synonym archive = "string \<rightharpoonup> string"

text \<open>
  The body of the \<^verbatim>\<open>try\<close> of \<^verbatim>\<open>convert_html_to_markdown\<close>: the fragment, or \<open>None\<close>
  where an exception is caught (a manifest item without \<^verbatim>\<open>href\<close>, an entry that is
  not in the archive, a parser or converter that raises).
\<close>

definition convert_document ::
  "env \<Rightarrow> archive \<Rightarrow> string \<Rightarrow> (string \<rightharpoonup> string) \<Rightarrow> string option \<Rightarrow> string option" where
  "convert_document env epub opf_dir image_map file_path =
     (case file_path of
        None \<Rightarrow> None
      | Some fp \<Rightarrow>
          (case epub (path_join opf_dir fp) of
             None \<Rightarrow> None
           | Some file_content \<Rightarrow>
               (case BeautifulSoup env file_content of
                  None \<Rightarrow> None
                | Some soup \<Rightarrow>
                    (case h2t_handle env (soup_str env
                            (separate_headings (map (rewrite_images image_map) soup))) of
                       None \<Rightarrow> None
                     | Some md_content \<Rightarrow> Some (postprocess md_content)))))"

definition convert_html_to_markdown ::
  "env \<Rightarrow> archive \<Rightarrow> string \<Rightarrow> string option \<Rightarrow> string list \<Rightarrow> (string \<rightharpoonup> string)
     \<Rightarrow> string list" where
  "convert_html_to_markdown env epub opf_dir file_path markdown_content image_map =
     (case convert_document env epub opf_dir image_map file_path of
        None \<Rightarrow> markdown_content
      | Some md_content \<Rightarrow> markdown_content @ [md_content])"

section \<open>Converting an archive\<close>

text \<open>
  The exceptions that leave the \<^verbatim>\<open>try\<close> block of \<^verbatim>\<open>extract_content_from_epub\<close>.
\<close>

datatype error = BadZipFile | KeyError "string option" | ParseError | AttributeError
  | OSError | RuntimeError

text \<open>
  The file at \<^verbatim>\<open>epub_path\<close>: absent, not a ZIP archive, or an archive, which maps entry
  names to their bytes (\<^verbatim>\<open>epub.read(name)\<close> raises \<^verbatim>\<open>KeyError\<close> for a name without
  entry).
\<close>

datatype epub_file = Missing | NotZip | Zip archive

text \<open>
  The files on disk: file to content. Creating directories (\<^verbatim>\<open>mkdir\<close>, \<^verbatim>\<open>mkdtemp\<close>)
  writes no file and is taken to succeed.
\<close>

type_synonym files = "string \<rightharpoonup> string"

text \<open>
  Different path texts can name one file (\<^verbatim>\<open>images/x.png\<close>, \<^verbatim>\<open>images/./x.png\<close>,
  \<^verbatim>\<open>images//x.png\<close>, \<^verbatim>\<open>images/a/../x.png\<close>, the same below the working directory written
  in full). The files are therefore keyed by the resolved path: the path is taken from
  the working directory, empty and \<^verbatim>\<open>.\<close> components are dropped, and \<^verbatim>\<open>..\<close> removes the
  component before it (at the root it does nothing). Symbolic links are not modelled.
\<close>

fun walk :: "string list \<Rightarrow> string list \<Rightarrow> string list" where
  "walk up [] = up"
| "walk up (c # cs) =
     (if c = [] \<or> c = ''.'' then walk up cs
      else if c = ''..'' then walk (tl up) cs
      else walk (c # up) cs)"

definition file_key :: "env \<Rightarrow> string \<Rightarrow> string" where
  "file_key env p =
     ''/'' @ join_with ''/'' (rev (walk [] (split_on (CHR ''/'') (path_join (getcwd env) p))))"

text \<open>
  The dictionaries \<^verbatim>\<open>content_items\<close> and \<^verbatim>\<open>image_items\<close>: identifier to \<^verbatim>\<open>href\<close>, in
  insertion order. Both come from \<^verbatim>\<open>item.get\<close> and may be \<^verbatim>\<open>None\<close>. Assigning to a key
  that is present replaces its value where it stands (\<^const>\<open>AList.update\<close>).
\<close>

type_synonym items = "(string option \<times> string option) list"

subsection \<open>The package descriptor\<close>

text \<open>
  From the container to the parsed package descriptor and its path.
\<close>

definition read_opf :: "env \<Rightarrow> archive \<Rightarrow> error + (string \<times> xml)" where
  "read_opf env epub =
     (case epub ''META-INF/container.xml'' of
        None \<Rightarrow> Inl (KeyError (Some ''META-INF/container.xml''))
      | Some container \<Rightarrow>
          (case fromstring env container of
             None \<Rightarrow> Inl ParseError
           | Some container_root \<Rightarrow>
               (case find_elem (NS_container @ ''rootfile'') container_root of
                  None \<Rightarrow> Inl AttributeError
                | Some rootfile \<Rightarrow>
                    (case get_attr rootfile ''full-path'' of
                       None \<Rightarrow> Inl (KeyError None)
                     | Some opf_path \<Rightarrow>
                         (case epub opf_path of
                            None \<Rightarrow> Inl (KeyError (Some opf_path))
                          | Some opf_content \<Rightarrow>
                              (case fromstring env opf_content of
                                 None \<Rightarrow> Inl ParseError
                               | Some opf_root \<Rightarrow> Inr (opf_path, opf_root)))))))"

definition get_opf_dir :: "string \<Rightarrow> string" where
  "get_opf_dir opf_path =
     (let opf_dir = dirname opf_path in
      if opf_dir \<noteq> [] \<and> last opf_dir \<noteq> CHR ''/'' then opf_dir @ ''/'' else opf_dir)"

text \<open>
  The text of the first element with the given tag below the metadata element, and the
  empty text when the metadata element, the element or its text is missing.
\<close>

definition metadata_text :: "string \<Rightarrow> xml \<Rightarrow> string" where
  "metadata_text t opf_root =
     (case find_elem (NS_opf @ ''metadata'') opf_root of
        None \<Rightarrow> []
      | Some metadata \<Rightarrow>
          (case find_elem t metadata of
             None \<Rightarrow> []
           | Some e \<Rightarrow> (case elem_text e of None \<Rightarrow> [] | Some s \<Rightarrow> s)))"

definition get_title :: "xml \<Rightarrow> string" where
  "get_title opf_root = metadata_text (NS_dc @ ''title'') opf_root"

definition get_author :: "xml \<Rightarrow> string" where
  "get_author opf_root = metadata_text (NS_dc @ ''creator'') opf_root"

definition get_itemrefs :: "xml \<Rightarrow> string option list" where
  "get_itemrefs opf_root =
     (case find_elem (NS_opf @ ''spine'') opf_root of
        None \<Rightarrow> []
      | Some spine \<Rightarrow>
          map (\<lambda>item. get_attr item ''idref'') (findall_elem (NS_opf @ ''itemref'') spine))"

text \<open>
  The loop over the manifest's items. An item without \<^verbatim>\<open>media-type\<close> is not one of the
  two content types, and \<^verbatim>\<open>media_type.startswith\<close> then raises \<^verbatim>\<open>AttributeError\<close>.
\<close>

fun collect_items :: "xml list \<Rightarrow> items \<times> items \<Rightarrow> error + items \<times> items" where
  "collect_items [] acc = Inr acc"
| "collect_items (item # rest) (content_items, image_items) =
     (let item_id = get_attr item ''id'';
          href = get_attr item ''href'';
          media_type = get_attr item ''media-type''
      in if media_type = Some ''application/xhtml+xml'' \<or> media_type = Some ''text/html''
         then collect_items rest (AList.update item_id href content_items, image_items)
         else (case media_type of
                 None \<Rightarrow> Inl AttributeError
               | Some mt \<Rightarrow>
                   if take 6 mt = ''image/''
                   then collect_items rest (content_items, AList.update item_id href image_items)
                   else collect_items rest (content_items, image_items)))"

subsection \<open>Images\<close>

text \<open>How an f-string shows an attribute value.\<close>

definition fmt :: "string option \<Rightarrow> string" where
  "fmt v = (case v of None \<Rightarrow> ''None'' | Some s \<Rightarrow> s)"

definition new_image_name :: "string option \<Rightarrow> string \<Rightarrow> string" where
  "new_image_name image_id image_href = fmt image_id @ splitext_ext image_href"

definition md_image_path :: "string \<Rightarrow> string option \<Rightarrow> string \<Rightarrow> string" where
  "md_image_path md_img_dir image_id image_href =
     md_img_dir @ ''/'' @ new_image_name image_id image_href"

text \<open>
  One round of the loop over \<^verbatim>\<open>image_items\<close>, on the pair of \<^verbatim>\<open>image_map\<close> and the
  files. The round is left without an entry in \<^verbatim>\<open>image_map\<close> when the item has no
  \<^verbatim>\<open>href\<close>, when the file cannot be opened, or when the archive has no such entry; in
  the last case \<^verbatim>\<open>open(save_path, 'wb')\<close> has already made the file, empty.
\<close>

definition save_image ::
  "env \<Rightarrow> archive \<Rightarrow> string \<Rightarrow> string \<Rightarrow> string \<Rightarrow> string option \<times> string option
     \<Rightarrow> (string \<rightharpoonup> string) \<times> files \<Rightarrow> (string \<rightharpoonup> string) \<times> files" where
  "save_image env epub opf_dir image_dir md_img_dir item st =
     (case snd item of
        None \<Rightarrow> st
      | Some image_href \<Rightarrow>
          (let image_path = path_join opf_dir image_href;
               save_path = path_join image_dir (new_image_name (fst item) image_href);
               md_path = md_image_path md_img_dir (fst item) image_href
           in if \<not> can_open env save_path then st
              else (case epub image_path of
                      None \<Rightarrow> (fst st, (snd st)(file_key env save_path \<mapsto> []))
                    | Some data \<Rightarrow>
                        ((fst st)(basename image_href \<mapsto> md_path, image_href \<mapsto> md_path),
                         (snd st)(file_key env save_path \<mapsto> data)))))"

fun save_images ::
  "env \<Rightarrow> archive \<Rightarrow> string \<Rightarrow> string \<Rightarrow> string \<Rightarrow> items
     \<Rightarrow> (string \<rightharpoonup> string) \<times> files \<Rightarrow> (string \<rightharpoonup> string) \<times> files" where
  "save_images env epub opf_dir image_dir md_img_dir [] st = st"
| "save_images env epub opf_dir image_dir md_img_dir (item # rest) st =
     save_images env epub opf_dir image_dir md_img_dir rest
       (save_image env epub opf_dir image_dir md_img_dir item st)"

subsection \<open>The document\<close>

text \<open>The label of the author line, the three characters U+4F5C U+8005 U+FF1A.\<close>

definition author_label :: string where
  "author_label =
     [CHR 0xE4, CHR 0xBD, CHR 0x9C, CHR 0xE8, CHR 0x80, CHR 0x85, CHR 0xEF, CHR 0xBC, CHR 0x9A]"

definition title_line :: "string \<Rightarrow> string" where
  "title_line title = ''# '' @ title @ [NL]"

definition author_line :: "string \<Rightarrow> string" where
  "author_line author = ''**'' @ author_label @ author @ ''**'' @ [NL]"

text \<open>\<^verbatim>\<open>markdown_content\<close> before the first content document.\<close>

definition header :: "string \<Rightarrow> string \<Rightarrow> string list" where
  "header title author =
     (if title \<noteq> [] then [title_line title] else [])
     @ (if author \<noteq> [] then [author_line author] else [])"

text \<open>The loop over the spine, and the loop over \<^verbatim>\<open>content_items\<close> used without one.\<close>

fun convert_spine ::
  "env \<Rightarrow> archive \<Rightarrow> string \<Rightarrow> (string \<rightharpoonup> string) \<Rightarrow> items \<Rightarrow> string option list
     \<Rightarrow> string list \<Rightarrow> string list" where
  "convert_spine env epub opf_dir image_map content_items [] markdown_content =
     markdown_content"
| "convert_spine env epub opf_dir image_map content_items (idref # rest) markdown_content =
     (case map_of content_items idref of
        None \<Rightarrow> convert_spine env epub opf_dir image_map content_items rest markdown_content
      | Some file_path \<Rightarrow>
          convert_spine env epub opf_dir image_map content_items rest
            (convert_html_to_markdown env epub opf_dir file_path markdown_content image_map))"

fun convert_manifest ::
  "env \<Rightarrow> archive \<Rightarrow> string \<Rightarrow> (string \<rightharpoonup> string) \<Rightarrow> items \<Rightarrow> string list \<Rightarrow> string list"
  where
  "convert_manifest env epub opf_dir image_map [] markdown_content = markdown_content"
| "convert_manifest env epub opf_dir image_map (item # rest) markdown_content =
     convert_manifest env epub opf_dir image_map rest
       (convert_html_to_markdown env epub opf_dir (snd item) markdown_content image_map)"

definition convert_documents ::
  "env \<Rightarrow> archive \<Rightarrow> string \<Rightarrow> (string \<rightharpoonup> string) \<Rightarrow> string option list \<Rightarrow> items
     \<Rightarrow> string list \<Rightarrow> string list" where
  "convert_documents env epub opf_dir image_map itemrefs content_items markdown_content =
     (if itemrefs \<noteq> []
      then convert_spine env epub opf_dir image_map content_items itemrefs markdown_content
      else convert_manifest env epub opf_dir image_map content_items markdown_content)"

text \<open>\<^verbatim>\<open>shutil.rmtree(d)\<close>: the files below \<open>d\<close> are gone.\<close>

definition rmtree :: "env \<Rightarrow> string \<Rightarrow> files \<Rightarrow> files" where
  "rmtree env d fs =
     (\<lambda>k. if take (Suc (length (file_key env d))) k = file_key env d @ ''/'' then None
          else fs k)"

text \<open>
  Writing the document, reading it back, removing the temporary directory or starting
  the upload task (\<^verbatim>\<open>asyncio.create_task\<close> raises \<^verbatim>\<open>RuntimeError\<close> without a running
  event loop).
\<close>

definition write_output ::
  "env \<Rightarrow> string \<Rightarrow> bool \<Rightarrow> string list \<Rightarrow> files \<Rightarrow> (error + string) \<times> files" where
  "write_output env output_path save markdown_content fs =
     (if \<not> can_open env output_path then (Inl OSError, fs)
      else (let fs' = fs(file_key env output_path \<mapsto> join_with [NL] markdown_content);
                markdown_text = universal_newlines (join_with [NL] markdown_content)
            in if \<not> save then (Inr markdown_text, rmtree env (mkdtemp env) fs')
               else if loop_running env then (Inr markdown_text, fs')
               else (Inl RuntimeError, fs')))"

text \<open>The \<^verbatim>\<open>try\<close> block, once the archive is open.\<close>

definition extract_archive ::
  "env \<Rightarrow> archive \<Rightarrow> string \<Rightarrow> string \<Rightarrow> string \<Rightarrow> bool \<Rightarrow> files \<Rightarrow> (error + string) \<times> files"
  where
  "extract_archive env epub output_path image_dir md_img_dir save fs =
     (case read_opf env epub of
        Inl e \<Rightarrow> (Inl e, fs)
      | Inr (opf_path, opf_root) \<Rightarrow>
          (case find_elem (NS_opf @ ''manifest'') opf_root of
             None \<Rightarrow> (Inl AttributeError, fs)
           | Some manifest \<Rightarrow>
               (case collect_items (findall_elem (NS_opf @ ''item'') manifest) ([], []) of
                  Inl e \<Rightarrow> (Inl e, fs)
                | Inr (content_items, image_items) \<Rightarrow>
                    (let opf_dir = get_opf_dir opf_path;
                         st = save_images env epub opf_dir image_dir md_img_dir image_items
                                (Map.empty, fs);
                         markdown_content =
                           convert_documents env epub opf_dir (fst st) (get_itemrefs opf_root)
                             content_items
                             (header (get_title opf_root) (get_author opf_root))
                     in write_output env output_path save markdown_content (snd st)))))"

definition get_output_path :: "env \<Rightarrow> string \<Rightarrow> bool \<Rightarrow> string" where
  "get_output_path env product_code save =
     (if save
      then pure_path (''./data/'' @ product_code @ ''/epub/'' @ product_code @ ''.epub.md'')
      else pure_path (path_join (mkdtemp env) (product_code @ ''.epub.md'')))"

definition get_image_dir :: "env \<Rightarrow> string \<Rightarrow> bool \<Rightarrow> string" where
  "get_image_dir env product_code save =
     (if save then pure_path (''./data/'' @ product_code @ ''/images/'')
      else pure_path (path_join (mkdtemp env) ''images''))"

definition get_md_img_dir :: "string \<Rightarrow> string option \<Rightarrow> string" where
  "get_md_img_dir product_code md_img_dir =
     (case md_img_dir of
        None \<Rightarrow> ''/books/'' @ product_code @ ''/images''
      | Some d \<Rightarrow> if d = [] then ''/books/'' @ product_code @ ''/images'' else d)"

text \<open>
  The \<^verbatim>\<open>try\<close> statement with the exception that ended it, if any, and the function as
  the caller sees it: \<^verbatim>\<open>None\<close> at once when the file does not exist, else the text, or
  \<^verbatim>\<open>None\<close> after an exception; and the files afterwards.
\<close>

definition extract_try ::
  "env \<Rightarrow> epub_file \<Rightarrow> string \<Rightarrow> string option \<Rightarrow> bool \<Rightarrow> files \<Rightarrow> (error + string) \<times> files"
  where
  "extract_try env epub_path product_code md_img_dir save fs =
     (case epub_path of
        Missing \<Rightarrow> (Inl OSError, fs)
      | NotZip \<Rightarrow> (Inl BadZipFile, fs)
      | Zip epub \<Rightarrow>
          extract_archive env epub (get_output_path env product_code save)
            (get_image_dir env product_code save) (get_md_img_dir product_code md_img_dir)
            save fs)"

definition extract_content_from_epub ::
  "env \<Rightarrow> epub_file \<Rightarrow> string \<Rightarrow> string option \<Rightarrow> bool \<Rightarrow> files \<Rightarrow> string option \<times> files"
  where
  "extract_content_from_epub env epub_path product_code md_img_dir save fs =
     (case epub_path of
        Missing \<Rightarrow> (None, fs)
      | _ \<Rightarrow>
          (case extract_try env epub_path product_code md_img_dir save fs of
             (Inl e, fs') \<Rightarrow> (None, fs')
           | (Inr markdown_text, fs') \<Rightarrow> (Some markdown_text, fs')))"

section \<open>Observations used in the statements\<close>

text \<open>The \<^verbatim>\<open>src\<close> values of all \<^verbatim>\<open>img\<close> elements of a parsed document.\<close>

definition soup_img_srcs :: "html list \<Rightarrow> string option list" where
  "soup_img_srcs soup = concat (map img_srcs soup)"

text \<open>All headings of a parsed document, in document order.\<close>

definition soup_headings :: "html list \<Rightarrow> html list" where
  "soup_headings soup = concat (map find_all_headings soup)"

text \<open>
  What stands before the headings when the first of them has index \<open>i\<close> and every
  heading with a positive index has the new tag before it.
\<close>

definition separated :: "nat \<Rightarrow> html option list \<Rightarrow> html option list" where
  "separated i ps =
     (if 0 < i then map (\<lambda>_. Some new_tag) ps
      else take 1 ps @ map (\<lambda>_. Some new_tag) (drop 1 ps))"

text \<open>
  The manifest as the loop of \<^verbatim>\<open>extract_content_from_epub\<close> classifies it: the items
  that are content documents and the items that are images, each as the pair of its
  \<^verbatim>\<open>id\<close> and \<^verbatim>\<open>href\<close>, in the order of the manifest.
\<close>

definition is_content :: "xml \<Rightarrow> bool" where
  "is_content item =
     (get_attr item ''media-type'' = Some ''application/xhtml+xml''
      \<or> get_attr item ''media-type'' = Some ''text/html'')"

definition is_image :: "xml \<Rightarrow> bool" where
  "is_image item =
     (\<not> is_content item \<and>
      (case get_attr item ''media-type'' of None \<Rightarrow> False | Some mt \<Rightarrow> take 6 mt = ''image/''))"

definition id_href :: "xml \<Rightarrow> string option \<times> string option" where
  "id_href item = (get_attr item ''id'', get_attr item ''href'')"

definition content_documents :: "xml list \<Rightarrow> items" where
  "content_documents items = map id_href (filter is_content items)"

definition image_documents :: "xml list \<Rightarrow> items" where
  "image_documents items = map id_href (filter is_image items)"

text \<open>The dictionary after assigning the pairs in order.\<close>

definition assign_all :: "items \<Rightarrow> items \<Rightarrow> items" where
  "assign_all d ps = foldl (\<lambda>d p. AList.update (fst p) (snd p) d) d ps"

section \<open>A sample book\<close>

text \<open>
  A small archive and environment for the concrete instances below: a container that
  points to \<^verbatim>\<open>OEBPS/content.opf\<close>, a package with the given metadata, manifest and spine,
  three content documents, three images, and a serialiser that writes tags in angle
  brackets. The archive has an entry for the directory \<^verbatim>\<open>OEBPS/img/\<close> and no entry
  \<^verbatim>\<open>OEBPS/gone/pic.png\<close>. The working directory is \<^verbatim>\<open>/w\<close>.
\<close>

fun render :: "html \<Rightarrow> string" where
  "render (Text s) = s"
| "render (Tag n as cs) =
     ''<'' @ n @ concat (map (\<lambda>kv. '' '' @ fst kv @ ''='' @ snd kv) as) @ ''>''
     @ concat (map render cs) @ ''</'' @ n @ ''>''"

definition sample_item :: "string \<Rightarrow> string \<Rightarrow> string \<Rightarrow> xml" where
  "sample_item item_id href media_type =
     Elem (NS_opf @ ''item'') [(''id'', item_id), (''href'', href), (''media-type'', media_type)]
       None []"

definition sample_container :: xml where
  "sample_container =
     Elem (NS_container @ ''container'') [] None
       [Elem (NS_container @ ''rootfiles'') [] None
          [Elem (NS_container @ ''rootfile'') [(''full-path'', ''OEBPS/content.opf'')] None []]]"

definition sample_manifest :: "xml list \<Rightarrow> xml" where
  "sample_manifest items = Elem (NS_opf @ ''manifest'') [] None items"

definition sample_package :: "xml list \<Rightarrow> xml list \<Rightarrow> string list \<Rightarrow> xml" where
  "sample_package metadata items idrefs =
     Elem (NS_opf @ ''package'') [] None
       [Elem (NS_opf @ ''metadata'') [] None metadata,
        sample_manifest items,
        Elem (NS_opf @ ''spine'') [] None
          (map (\<lambda>r. Elem (NS_opf @ ''itemref'') [(''idref'', r)] None []) idrefs)]"

definition sample_env :: "xml \<Rightarrow> env" where
  "sample_env package =
     \<lparr>fromstring = (\<lambda>s. if s = ''container'' then Some sample_container
                         else if s = ''package'' then Some package else None),
      BeautifulSoup = (\<lambda>s.
         if s = ''A''
         then Some [Tag ''h2'' [] [Text ''A''], Tag ''img'' [(''src'', ''pic.png'')] []]
         else if s = ''B''
         then Some [Tag ''h1'' [] [Text ''B''], Tag ''img'' [(''src'', ''img/pic.png'')] []]
         else if s = ''C''
         then Some [Tag ''img'' [(''src'', ''gone/pic.png'')] []]
         else None),
      soup_str = (\<lambda>soup. concat (map render soup)),
      h2t_handle = Some,
      can_open = (\<lambda>p. True),
      getcwd = ''/w'',
      mkdtemp = ''/tmp/t'',
      loop_running = True\<rparr>"

definition sample_epub :: archive where
  "sample_epub =
     [''META-INF/container.xml'' \<mapsto> ''container'', ''OEBPS/content.opf'' \<mapsto> ''package'',
      ''OEBPS/a.xhtml'' \<mapsto> ''A'', ''OEBPS/b.xhtml'' \<mapsto> ''B'', ''OEBPS/c.xhtml'' \<mapsto> ''C'',
      ''OEBPS/img/pic.png'' \<mapsto> ''PNG'', ''OEBPS/img/'' \<mapsto> [],
      ''OEBPS/a/cover'' \<mapsto> ''FIRST'', ''OEBPS/b/cover.png'' \<mapsto> ''SECOND'']"

definition sample_items :: "xml list" where
  "sample_items =
     [sample_item ''a'' ''a.xhtml'' ''application/xhtml+xml'',
      sample_item ''i1'' ''img/pic.png'' ''image/png'',
      sample_item ''css'' ''s.css'' ''text/css'',
      sample_item ''b'' ''b.xhtml'' ''text/html'']"

definition sample_metadata :: "xml list" where
  "sample_metadata =
     [Elem (NS_dc @ ''title'') [] (Some ''T'') [], Elem (NS_dc @ ''creator'') [] (Some ''Ann'') []]"

definition sample_image_map :: "string \<rightharpoonup> string" where
  "sample_image_map = [''pic.png'' \<mapsto> ''/m/i1.png'', ''img/pic.png'' \<mapsto> ''/m/i1.png'']"

text \<open>An item without \<^verbatim>\<open>media-type\<close>.\<close>

definition untyped_item :: xml where
  "untyped_item = Elem (NS_opf @ ''item'') [(''id'', ''x''), (''href'', ''x.bin'')] None []"

text \<open>Two items with one identifier.\<close>

definition duplicate_items :: "xml list" where
  "duplicate_items =
     [sample_item ''a'' ''x.html'' ''application/xhtml+xml'',
      sample_item ''b'' ''b.html'' ''application/xhtml+xml'',
      sample_item ''a'' ''y.html'' ''application/xhtml+xml'']"

text \<open>
  A package descriptor without title and creator elements in its metadata, and the
  fragments of a run: the converted documents, in the order of \<^verbatim>\<open>markdown_content\<close>.
\<close>

definition no_title_creator :: "xml \<Rightarrow> bool" where
  "no_title_creator opf_root =
     (case find_elem (NS_opf @ ''metadata'') opf_root of
        None \<Rightarrow> True
      | Some metadata \<Rightarrow>
          find_elem (NS_dc @ ''title'') metadata = None
          \<and> find_elem (NS_dc @ ''creator'') metadata = None)"

definition fragments ::
  "env \<Rightarrow> archive \<Rightarrow> string \<Rightarrow> xml \<Rightarrow> string \<Rightarrow> string \<Rightarrow> items \<Rightarrow> items \<Rightarrow> string list" where
  "fragments env epub opf_path opf_root image_dir md_img_dir content_items image_items =
     convert_documents env epub (get_opf_dir opf_path)
       (fst (save_images env epub (get_opf_dir opf_path) image_dir md_img_dir image_items
          (Map.empty, Map.empty)))
       (get_itemrefs opf_root) content_items []"

text \<open>
  \<^verbatim>\<open>image_map\<close> and the files after the loop over \<^verbatim>\<open>image_items\<close> in a run of
  \<^verbatim>\<open>extract_content_from_epub\<close>.
\<close>

definition extracted ::
  "env \<Rightarrow> archive \<Rightarrow> string \<Rightarrow> string \<Rightarrow> string option \<Rightarrow> bool \<Rightarrow> items \<Rightarrow> files
     \<Rightarrow> (string \<rightharpoonup> string) \<times> files" where
  "extracted env epub opf_path product_code md_img_dir save image_items fs =
     save_images env epub (get_opf_dir opf_path) (get_image_dir env product_code save)
       (get_md_img_dir product_code md_img_dir) image_items (Map.empty, fs)"



text \<open>
  The distinct members of a list in the order of their first occurrence: the keys of a
  dictionary filled by assigning to them in the order of the list.
\<close>

fun first_seen :: "'a list \<Rightarrow> 'a list" where
  "first_seen [] = []"
| "first_seen (x # xs) = x # removeAll x (first_seen xs)"


text \<open>A manifest whose first and third content documents have one identifier.\<close>

definition repeated_items :: "xml list" where
  "repeated_items =
     [sample_item ''a'' ''a.xhtml'' ''application/xhtml+xml'',
      sample_item ''b'' ''b.xhtml'' ''application/xhtml+xml'',
      sample_item ''a'' ''c.xhtml'' ''application/xhtml+xml'']"

section \<open>Blank-line normalisation\<close>

lemma nl_run_Nil [simp]: "nl_run [] = 0"
  by (simp add: nl_run_def)

lemma nl_run_Cons: "nl_run (c # cs) = (if c = NL then Suc (nl_run cs) else 0)"
  by (simp add: nl_run_def)

lemma nl_run_drop [simp]: "nl_run (drop (nl_run s) s) = 0"
proof -
  have "drop (nl_run s) s = dropWhile (\<lambda>c. c = NL) s"
    unfolding nl_run_def by (rule dropWhile_eq_drop [symmetric])
  moreover have "takeWhile (\<lambda>c. c = NL) (dropWhile (\<lambda>c. c = NL) s) = []"
    by (induction s) auto
  ultimately show ?thesis by (simp add: nl_run_def)
qed

lemma collapse_Nil [simp]: "collapse_blank_lines [] = []"
  by (simp add: collapse_blank_lines_def)

lemma collapse_Cons:
  "collapse_blank_lines (c # cs) =
     (if 3 \<le> nl_run (c # cs)
      then NL # NL # collapse_blank_lines (drop (nl_run (c # cs)) (c # cs))
      else c # collapse_blank_lines cs)"
  by (simp add: collapse_blank_lines_def match_blank_lines_def)

lemma collapse_settled_id: "settled s \<Longrightarrow> collapse_blank_lines s = s"
  by (induction s) (auto simp: collapse_Cons)

lemma nl_run_collapse: "nl_run (collapse_blank_lines s) = min 2 (nl_run s)"
proof (induction "length s" arbitrary: s rule: less_induct)
  case less
  show ?case
  proof (cases s)
    case Nil
    then show ?thesis by simp
  next
    case (Cons c cs)
    show ?thesis
    proof (cases "3 \<le> nl_run s")
      case True
      have "length (drop (nl_run s) s) < length s"
        using True Cons by simp
      then have "nl_run (collapse_blank_lines (drop (nl_run s) s)) = 0"
        using less.hyps by simp
      then show ?thesis
        using True Cons by (simp add: collapse_Cons nl_run_Cons)
    next
      case False
      have "nl_run (collapse_blank_lines cs) = min 2 (nl_run cs)"
        using less.hyps [of cs] Cons by simp
      then show ?thesis
        using False Cons by (auto simp: collapse_Cons nl_run_Cons)
    qed
  qed
qed

lemma settled_collapse: "settled (collapse_blank_lines s)"
proof (induction "length s" arbitrary: s rule: less_induct)
  case less
  show ?case
  proof (cases s)
    case Nil
    then show ?thesis by simp
  next
    case (Cons c cs)
    show ?thesis
    proof (cases "3 \<le> nl_run s")
      case True
      let ?t = "collapse_blank_lines (drop (nl_run s) s)"
      have "length (drop (nl_run s) s) < length s"
        using True Cons by simp
      then have "settled ?t"
        using less.hyps by simp
      moreover have "nl_run ?t = 0"
        by (simp add: nl_run_collapse)
      ultimately show ?thesis
        using True Cons by (simp add: collapse_Cons nl_run_Cons)
    next
      case False
      have "settled (collapse_blank_lines cs)"
        using less.hyps [of cs] Cons by simp
      moreover have "nl_run (c # collapse_blank_lines cs) < 3"
        using False Cons nl_run_collapse [of cs] by (auto simp: nl_run_Cons)
      ultimately show ?thesis
        using False Cons by (simp add: collapse_Cons)
    qed
  qed
qed

text \<open>
  Claim C9. The blank-line normalisation \<^verbatim>\<open>re.sub(r'\n{3,}', '\n\n', md_content)\<close> is
  idempotent: applying it twice to any text gives the same text as applying it once.
\<close>

theorem collapse_blank_lines_idempotent:
  "collapse_blank_lines (collapse_blank_lines s) = collapse_blank_lines s"
  by (rule collapse_settled_id) (rule settled_collapse)

section \<open>Image references\<close>

lemma basename_Nil [simp]: "basename [] = []"
  by (simp add: basename_def)

lemma map_of_rewrite_src:
  "map_of (rewrite_src m as) ''src'' =
     (case map_of as ''src'' of
        None \<Rightarrow> None
      | Some s \<Rightarrow> if s = [] then Some [] else Some (lookup_reference m s))"
  by (simp add: rewrite_src_def lookup_reference_def update_conv' split: option.splits)

lemma img_srcs_rewrite_images:
  "img_srcs (rewrite_images m h) =
     map (\<lambda>v. case v of None \<Rightarrow> None
               | Some s \<Rightarrow> if s = [] then Some [] else Some (lookup_reference m s))
       (img_srcs h)"
proof (induction h)
  case (Text s)
  then show ?case by simp
next
  case (Tag n as cs)
  have "concat (map (img_srcs \<circ> rewrite_images m) cs) =
        concat (map (\<lambda>h. map (\<lambda>v. case v of None \<Rightarrow> None
               | Some s \<Rightarrow> if s = [] then Some [] else Some (lookup_reference m s))
                 (img_srcs h)) cs)"
    using Tag.IH by (induction cs) auto
  then show ?case
    by (simp add: map_of_rewrite_src map_concat comp_def)
qed

text \<open>
  Claim C2, as the code has it. In a content document every \<^verbatim>\<open>img\<close> element with a
  non-empty \<^verbatim>\<open>src\<close> gets the entry of the rename map for the literal \<^verbatim>\<open>src\<close> value, else
  the entry for its base name, and keeps its value when both are absent. An element
  without \<^verbatim>\<open>src\<close> or with an empty one is skipped by the guard \<^verbatim>\<open>if src:\<close> and keeps
  what it has. The \<^verbatim>\<open>src\<close> values after the pass are these, element by element.
\<close>

theorem rewrite_images_lookup:
  "soup_img_srcs (map (rewrite_images image_map) soup) =
     map (\<lambda>v. case v of
                None \<Rightarrow> None
              | Some src \<Rightarrow> if src = [] then Some [] else Some (lookup_reference image_map src))
       (soup_img_srcs soup)"
  unfolding soup_img_srcs_def by (induction soup) (simp_all add: img_srcs_rewrite_images)

theorem rewrite_images_lookup_witness:
  "soup_img_srcs (map (rewrite_images
          [''img/b.png'' \<mapsto> ''/books/p/images/i2.png'', ''a.png'' \<mapsto> ''/books/p/images/i1.png''])
        [Tag ''p'' [] [Tag ''img'' [(''src'', ''../img/a.png'')] [], Text ''x'',
           Tag ''img'' [(''alt'', ''b''), (''src'', ''img/b.png'')] [],
           Tag ''img'' [(''src'', ''c.png'')] [], Tag ''img'' [(''src'', [])] [],
           Tag ''img'' [(''alt'', ''d'')] []]])
     = [Some ''/books/p/images/i1.png'', Some ''/books/p/images/i2.png'', Some ''c.png'',
        Some [], None]"
  using rewrite_images_lookup
    [of "[''img/b.png'' \<mapsto> ''/books/p/images/i2.png'', ''a.png'' \<mapsto> ''/books/p/images/i1.png'']"
        "[Tag ''p'' [] [Tag ''img'' [(''src'', ''../img/a.png'')] [], Text ''x'',
           Tag ''img'' [(''alt'', ''b''), (''src'', ''img/b.png'')] [],
           Tag ''img'' [(''src'', ''c.png'')] [], Tag ''img'' [(''src'', [])] [],
           Tag ''img'' [(''alt'', ''d'')] []]]"]
  by (simp add: soup_img_srcs_def lookup_reference_def basename_def)

text \<open>
  Claim C2 as stated, with the look-up for every \<^verbatim>\<open>img\<close> element, fails for an empty
  \<^verbatim>\<open>src\<close> when the rename map has an entry for the empty name. The image item with the
  href \<^verbatim>\<open>img/\<close>, whose entry is in the archive, records its base name, the empty name;
  the element with the empty \<^verbatim>\<open>src\<close> keeps it, where the look-up gives the image's path.
\<close>

theorem empty_src_counterexample:
  "sample_epub (path_join (get_opf_dir ''OEBPS/content.opf'') ''img/'') = Some []
   \<and> fst (extracted (sample_env (sample_package [] [] [])) sample_epub ''OEBPS/content.opf''
            ''p'' (Some ''/m'') True [(Some ''d'', Some ''img/'')] Map.empty) []
       = Some ''/m/d''
   \<and> soup_img_srcs (map (rewrite_images
          (fst (extracted (sample_env (sample_package [] [] [])) sample_epub ''OEBPS/content.opf''
                  ''p'' (Some ''/m'') True [(Some ''d'', Some ''img/'')] Map.empty)))
        [Tag ''img'' [(''src'', [])] []])
       = [Some []]
   \<and> map (map_option (lookup_reference
          (fst (extracted (sample_env (sample_package [] [] [])) sample_epub ''OEBPS/content.opf''
                  ''p'' (Some ''/m'') True [(Some ''d'', Some ''img/'')] Map.empty))))
        (soup_img_srcs [Tag ''img'' [(''src'', [])] []])
       = [Some ''/m/d'']"
  by code_simp

section \<open>Headings\<close>

lemma separated_Nil [simp]: "separated i [] = []"
  by (simp add: separated_def)

lemma separated_append:
  "separated i (ps @ qs) = separated i ps @ separated (i + length ps) qs"
  by (cases ps) (auto simp: separated_def)

lemma separated_pos: "0 < i \<Longrightarrow> separated i ps = replicate (length ps) (Some new_tag)"
  by (simp add: separated_def map_replicate_const)

lemma not_heading_p [simp]: "\<not> is_heading ''p''"
  by (simp add: is_heading_def heading_names_def)

lemma before_heading_new_tag [simp]: "before_heading prev new_tag = []"
  by (simp add: new_tag_def)

lemma length_before:
  "length (before_heading prev h) = length (find_all_headings h)"
  "length (before_headings prev hs) = length (soup_headings hs)"
  unfolding soup_headings_def
  by (induction prev h and prev hs rule: before_heading_before_headings.induct) simp_all

lemma before_headings_append:
  "before_headings prev (xs @ ys) =
     before_headings prev xs @ before_headings (if xs = [] then prev else Some (last xs)) ys"
  by (induction xs arbitrary: prev) auto

lemma insert_before_node_Tag:
  "insert_before_node i (Tag n as cs) =
     ((if is_heading n \<and> 0 < i then [new_tag] else [])
        @ [Tag n as (fst (insert_before_nodes (if is_heading n then Suc i else i) cs))],
      snd (insert_before_nodes (if is_heading n then Suc i else i) cs))"
  by (simp split: prod.splits)

lemma insert_before_nodes_Cons:
  "insert_before_nodes i (h # hs) =
     (fst (insert_before_node i h) @ fst (insert_before_nodes (snd (insert_before_node i h)) hs),
      snd (insert_before_nodes (snd (insert_before_node i h)) hs))"
  by (simp split: prod.splits)

lemmas ib_simps = insert_before_node.simps(1) insert_before_node_Tag
  insert_before_nodes.simps(1) insert_before_nodes_Cons

text \<open>The index for the next heading is the number of headings visited so far.\<close>

lemma insert_before_count:
  "snd (insert_before_node i h) = i + length (find_all_headings h)"
  "snd (insert_before_nodes i hs) = i + length (soup_headings hs)"
  unfolding soup_headings_def
proof (induction i h and i hs rule: insert_before_node_insert_before_nodes.induct)
  case (1 i s)
  show ?case by simp
next
  case (2 i n as cs)
  then show ?case
    by (simp only: ib_simps) (simp split: if_splits)
next
  case (3 i)
  show ?case by simp
next
  case (4 i h hs)
  from 4(1) 4(2) [OF refl prod.collapse] show ?case
    by (simp only: ib_simps) simp
qed

lemma insert_before_pos:
  "0 < i \<Longrightarrow> before_headings prev (fst (insert_before_node i h)) =
      replicate (length (find_all_headings h)) (Some new_tag)"
  "0 < i \<Longrightarrow> before_headings prev (fst (insert_before_nodes i hs)) =
      replicate (length (soup_headings hs)) (Some new_tag)"
  unfolding soup_headings_def
proof (induction i h and i hs arbitrary: prev and prev
    rule: insert_before_node_insert_before_nodes.induct)
  case (1 i s)
  then show ?case by simp
next
  case (2 i n as cs)
  then show ?case
    by (simp only: ib_simps) (simp split: if_splits)
next
  case (3 i)
  then show ?case by simp
next
  case (4 i h hs)
  have j: "0 < snd (insert_before_node i h)"
    using 4(3) by (simp add: insert_before_count)
  show ?case
    using 4(1) [OF 4(3)] 4(2) [OF refl prod.collapse j] 4(3)
    by (simp only: ib_simps) (simp add: before_headings_append flip: replicate_add)
qed

lemma insert_before_unchanged:
  "find_all_headings h = [] \<Longrightarrow> fst (insert_before_node i h) = [h]"
  "soup_headings hs = [] \<Longrightarrow> fst (insert_before_nodes i hs) = hs"
  unfolding soup_headings_def
proof (induction i h and i hs rule: insert_before_node_insert_before_nodes.induct)
  case (1 i s)
  show ?case by simp
next
  case (2 i n as cs)
  then show ?case
    by (simp only: ib_simps) (simp split: if_splits)
next
  case (3 i)
  show ?case by simp
next
  case (4 i h hs)
  from 4(3) have h: "find_all_headings h = []" and hs: "concat (map find_all_headings hs) = []"
    by simp_all
  from 4(1) [OF h] 4(2) [OF refl prod.collapse hs] show ?case
    by (simp only: ib_simps) simp
qed

lemma insert_before_separated:
  "before_headings prev (fst (insert_before_node i h)) = separated i (before_heading prev h)"
  "before_headings prev (fst (insert_before_nodes i hs)) = separated i (before_headings prev hs)"
proof (induction i h and i hs arbitrary: prev and prev
    rule: insert_before_node_insert_before_nodes.induct)
  case (1 i s)
  show ?case by simp
next
  case (2 i n as cs)
  show ?case
  proof (cases "is_heading n")
    case True
    then show ?thesis
      by (simp only: ib_simps)
        (simp add: separated_def map_replicate_const insert_before_pos length_before)
  next
    case False
    with 2(2) [of None] show ?thesis
      by (simp only: ib_simps) simp
  qed
next
  case (3 i)
  show ?case by simp
next
  case (4 i h hs)
  let ?j = "snd (insert_before_node i h)"
  let ?h' = "fst (insert_before_node i h)"
  have ne: "?h' \<noteq> []"
    by (cases h) (simp_all only: ib_simps, simp_all)
  have j: "?j = i + length (before_heading prev h)"
    by (simp add: insert_before_count length_before)
  have rest: "before_headings (Some (last ?h')) (fst (insert_before_nodes ?j hs)) =
              separated ?j (before_headings (Some h) hs)"
  proof (cases "0 < ?j")
    case True
    then show ?thesis
      by (simp add: insert_before_pos separated_pos length_before)
  next
    case False
    then have "find_all_headings h = []"
      by (simp add: insert_before_count)
    then have "?h' = [h]"
      by (rule insert_before_unchanged)
    then show ?thesis
      using 4(2) [OF refl prod.collapse, of "Some h"] by simp
  qed
  show ?case
    using 4(1) [of prev] rest ne j
    by (simp only: ib_simps) (simp add: before_headings_append separated_append)
qed

text \<open>
  Claim C3, as the code has it. \<^verbatim>\<open>enumerate\<close> starts at 0 in every call of
  \<^verbatim>\<open>convert_html_to_markdown\<close>, so the count of headings is per document: in each
  converted document the first heading keeps what stood before it, and every other
  heading of that document has the new empty paragraph as the sibling immediately
  before it.
\<close>

theorem separate_headings_per_document:
  "before_headings None (separate_headings soup) =
     take 1 (before_headings None soup)
     @ replicate (length (soup_headings soup) - 1) (Some new_tag)"
  by (simp add: separate_headings_def insert_before_separated separated_def
      map_replicate_const length_before)

text \<open>
  Claim C3 as stated, with one count for the whole corpus, fails on two documents of one
  heading each: the heading of the second document is the second heading of the corpus,
  and the code puts nothing before it.
\<close>

theorem separate_headings_global_counterexample:
  "map separate_headings [[Tag ''h1'' [] [Text ''A'']], [Tag ''h1'' [] [Text ''B'']]]
     = [[Tag ''h1'' [] [Text ''A'']], [Tag ''h1'' [] [Text ''B'']]]
   \<and> separate_headings_corpus 0 [[Tag ''h1'' [] [Text ''A'']], [Tag ''h1'' [] [Text ''B'']]]
     = [[Tag ''h1'' [] [Text ''A'']], [new_tag, Tag ''h1'' [] [Text ''B'']]]
   \<and> map separate_headings [[Tag ''h1'' [] [Text ''A'']], [Tag ''h1'' [] [Text ''B'']]]
     \<noteq> separate_headings_corpus 0 [[Tag ''h1'' [] [Text ''A'']], [Tag ''h1'' [] [Text ''B'']]]"
  by (simp add: separate_headings_def is_heading_def heading_names_def new_tag_def)

section \<open>The manifest\<close>

lemma collect_items_fail:
  "item \<in> set items \<Longrightarrow> get_attr item ''media-type'' = None \<Longrightarrow>
     collect_items items acc = Inl AttributeError"
proof (induction items arbitrary: acc)
  case Nil
  then show ?case by simp
next
  case (Cons a items)
  obtain ci ii where acc: "acc = (ci, ii)" by (cases acc)
  show ?case
  proof (cases "get_attr a ''media-type''")
    case None
    then show ?thesis by (simp add: acc)
  next
    case (Some mt)
    with Cons.prems have "item \<in> set items" by auto
    with Cons.IH Cons.prems(2) Some show ?thesis
      by (simp add: acc Let_def)
  qed
qed

lemma collect_items_ok:
  "\<forall>item \<in> set items. get_attr item ''media-type'' \<noteq> None \<Longrightarrow>
     collect_items items (ci, ii) =
       Inr (assign_all ci (content_documents items), assign_all ii (image_documents items))"
  unfolding content_documents_def image_documents_def
proof (induction items arbitrary: ci ii)
  case Nil
  then show ?case by (simp add: assign_all_def)
next
  case (Cons a items)
  then obtain mt where mt: "get_attr a ''media-type'' = Some mt" by auto
  from Cons have IH: "\<And>ci ii. collect_items items (ci, ii) =
       Inr (assign_all ci (map id_href (filter is_content items)),
            assign_all ii (map id_href (filter is_image items)))" by simp
  have c: "is_content a \<longleftrightarrow> mt = ''application/xhtml+xml'' \<or> mt = ''text/html''"
    using mt by (simp add: is_content_def)
  have i: "is_image a \<longleftrightarrow>
      \<not> (mt = ''application/xhtml+xml'' \<or> mt = ''text/html'') \<and> take 6 mt = ''image/''"
    using mt by (simp add: is_image_def is_content_def)
  have step: "\<And>d ps. assign_all d (id_href a # ps) =
      assign_all (AList.update (get_attr a ''id'') (get_attr a ''href'') d) ps"
    by (simp add: assign_all_def id_href_def)
  show ?case
    using c i by (simp add: IH mt Let_def step)
qed

lemma collect_items_Inr_media_type:
  assumes "collect_items items acc = Inr r"
  shows "\<forall>item \<in> set items. get_attr item ''media-type'' \<noteq> None"
proof (rule ccontr)
  assume "\<not> ?thesis"
  then obtain item where "item \<in> set items" "get_attr item ''media-type'' = None" by auto
  then have "collect_items items acc = Inl AttributeError" by (rule collect_items_fail)
  with assms show False by simp
qed

lemma collect_items_Inr:
  assumes "collect_items items ([], []) = Inr (content_items, image_items)"
  shows "content_items = assign_all [] (content_documents items)"
    and "image_items = assign_all [] (image_documents items)"
  using collect_items_ok [OF collect_items_Inr_media_type [OF assms], of "[]" "[]"] assms
  by simp_all

text \<open>Looking a key up after the assignments finds the last pair with that key.\<close>

lemma map_of_assign_all:
  "map_of (assign_all d ps) k =
     (case map_of (rev ps) k of Some v \<Rightarrow> Some v | None \<Rightarrow> map_of d k)"
  unfolding assign_all_def
  by (induction ps arbitrary: d) (auto simp: update_conv' map_add_def split: option.splits)

lemma map_of_assign_all_Nil: "map_of (assign_all [] ps) = map_of (rev ps)"
  by (auto simp: map_of_assign_all fun_eq_iff split: option.splits)

lemma assign_all_distinct:
  "distinct (map fst (d @ ps)) \<Longrightarrow> assign_all d ps = d @ ps"
  unfolding assign_all_def
proof (induction ps arbitrary: d)
  case Nil
  then show ?case by simp
next
  case (Cons p ps)
  have "AList.update (fst p) (snd p) d = d @ [p]"
    using Cons.prems by (induction d) auto
  with Cons show ?case by simp
qed

text \<open>
  Claim C7, as the code has it. A second item with an identifier already seen is not
  rejected: the loop assigns \<^verbatim>\<open>content_items[item_id] = href\<close> again, so when every item
  has a media type the loop ends without an error and each of the two dictionaries maps an
  identifier to the \<^verbatim>\<open>href\<close> of the last item of its kind with that identifier.
\<close>

theorem collect_items_last_wins:
  assumes "\<forall>item \<in> set items. get_attr item ''media-type'' \<noteq> None"
  shows "\<exists>content_items image_items.
           collect_items items ([], []) = Inr (content_items, image_items)
           \<and> map_of content_items = map_of (rev (content_documents items))
           \<and> map_of image_items = map_of (rev (image_documents items))"
  using collect_items_ok [OF assms, of "[]" "[]"]
  by (simp add: map_of_assign_all_Nil)

theorem collect_items_last_wins_witness:
  "list_all (\<lambda>item. get_attr item ''media-type'' \<noteq> None) duplicate_items
   \<and> (\<exists>content_items image_items.
         collect_items duplicate_items ([], []) = Inr (content_items, image_items)
         \<and> map_of content_items (Some ''a'') = Some (Some ''y.html'')
         \<and> map_of content_items (Some ''b'') = Some (Some ''b.html''))"
proof -
  have h: "\<forall>item \<in> set duplicate_items. get_attr item ''media-type'' \<noteq> None"
    by (simp add: duplicate_items_def sample_item_def get_attr_def)
  have v: "map_of (rev (content_documents duplicate_items)) (Some ''a'') = Some (Some ''y.html'')"
    "map_of (rev (content_documents duplicate_items)) (Some ''b'') = Some (Some ''b.html'')"
    by (simp_all add: duplicate_items_def sample_item_def get_attr_def content_documents_def
        is_content_def id_href_def)
  from collect_items_last_wins [OF h] v h show ?thesis
    by (auto simp: list_all_iff)
qed

text \<open>
  Claim C7 as stated fails on a manifest with two content items of identifier \<^verbatim>\<open>a\<close>: the
  loop does not fail, and the identifier does not keep the first \<^verbatim>\<open>href\<close>.
\<close>

theorem duplicate_identifier_counterexample:
  "\<not> (isl (collect_items duplicate_items ([], []))
       \<or> map_of (fst (projr (collect_items duplicate_items ([], [])))) (Some ''a'')
            = Some (Some ''x.html''))"
  by (simp add: duplicate_items_def sample_item_def get_attr_def)

section \<open>Failures of the whole conversion\<close>

lemma sample_read_opf:
  "read_opf (sample_env package) sample_epub = Inr (''OEBPS/content.opf'', package)"
  by (simp add: read_opf_def sample_env_def sample_epub_def find_elem_def findall_elem_def
      sample_container_def get_attr_def NS_container_def)

lemma sample_find_manifest:
  "find_elem (NS_opf @ ''manifest'') (sample_package [] items idrefs) =
     Some (sample_manifest items)"
  by (simp add: find_elem_def findall_elem_def sample_package_def sample_manifest_def
      NS_opf_def)

text \<open>
  Claim C5. When the archive has no entry \<^verbatim>\<open>META-INF/container.xml\<close>, the \<^verbatim>\<open>try\<close> block
  ends with the \<^verbatim>\<open>KeyError\<close> of \<^verbatim>\<open>epub.read\<close>, the caller gets \<^verbatim>\<open>None\<close>, and no file
  has been written: the files are as before. (The two output directories exist by
  then, empty.)
\<close>

theorem missing_container_fails:
  assumes "epub ''META-INF/container.xml'' = None"
  shows "extract_try env (Zip epub) product_code md_img_dir save fs =
           (Inl (KeyError (Some ''META-INF/container.xml'')), fs)
         \<and> extract_content_from_epub env (Zip epub) product_code md_img_dir save fs = (None, fs)"
  using assms
  by (simp add: extract_content_from_epub_def extract_try_def extract_archive_def read_opf_def)

theorem missing_container_fails_witness:
  "[''mimetype'' \<mapsto> ''application/epub+zip''] ''META-INF/container.xml'' = None
   \<and> extract_try (sample_env (sample_package [] [] [])) (Zip [''mimetype'' \<mapsto> ''application/epub+zip''])
         ''p'' None True [''data/p/epub/p.epub.md'' \<mapsto> ''old'']
       = (Inl (KeyError (Some ''META-INF/container.xml'')), [''data/p/epub/p.epub.md'' \<mapsto> ''old''])
   \<and> extract_content_from_epub (sample_env (sample_package [] [] []))
         (Zip [''mimetype'' \<mapsto> ''application/epub+zip'']) ''p'' None True
         [''data/p/epub/p.epub.md'' \<mapsto> ''old'']
       = (None, [''data/p/epub/p.epub.md'' \<mapsto> ''old''])"
  using missing_container_fails
    [of "[''mimetype'' \<mapsto> ''application/epub+zip'']" "sample_env (sample_package [] [] [])"
        "''p''" None True "[''data/p/epub/p.epub.md'' \<mapsto> ''old'']"]
  by simp

text \<open>
  Claim C10. When the manifest of the package descriptor has an item without
  \<^verbatim>\<open>media-type\<close>, the loop over the items raises \<^verbatim>\<open>AttributeError\<close>
  (\<^verbatim>\<open>media_type.startswith\<close> on \<^verbatim>\<open>None\<close>), nothing catches it before the outer handler,
  and the caller gets \<^verbatim>\<open>None\<close>, whatever else the archive holds. No image and no
  document has been written by then.
\<close>

theorem missing_media_type_aborts:
  assumes "read_opf env epub = Inr (opf_path, opf_root)"
      and "find_elem (NS_opf @ ''manifest'') opf_root = Some manifest"
      and "item \<in> set (findall_elem (NS_opf @ ''item'') manifest)"
      and "get_attr item ''media-type'' = None"
  shows "extract_try env (Zip epub) product_code md_img_dir save fs = (Inl AttributeError, fs)
         \<and> extract_content_from_epub env (Zip epub) product_code md_img_dir save fs = (None, fs)"
  using assms collect_items_fail [OF assms(3) assms(4), of "([], [])"]
  by (simp add: extract_content_from_epub_def extract_try_def extract_archive_def)

theorem missing_media_type_aborts_witness:
  "read_opf (sample_env (sample_package [] (sample_items @ [untyped_item]) [''a'']))
       sample_epub
     = Inr (''OEBPS/content.opf'', sample_package [] (sample_items @ [untyped_item]) [''a''])
   \<and> find_elem (NS_opf @ ''manifest'') (sample_package [] (sample_items @ [untyped_item]) [''a''])
     = Some (sample_manifest (sample_items @ [untyped_item]))
   \<and> untyped_item
       \<in> set (findall_elem (NS_opf @ ''item'') (sample_manifest (sample_items @ [untyped_item])))
   \<and> get_attr untyped_item ''media-type'' = None
   \<and> extract_content_from_epub
         (sample_env (sample_package [] (sample_items @ [untyped_item]) [''a'']))
         (Zip sample_epub) ''p'' None False Map.empty
     = (None, Map.empty)"
proof -
  have h3: "untyped_item
       \<in> set (findall_elem (NS_opf @ ''item'') (sample_manifest (sample_items @ [untyped_item])))"
    by (simp add: findall_elem_def sample_manifest_def untyped_item_def)
  have h4: "get_attr untyped_item ''media-type'' = None"
    by (simp add: get_attr_def untyped_item_def)
  from missing_media_type_aborts [OF sample_read_opf sample_find_manifest h3 h4,
      where product_code = "''p''" and md_img_dir = None and save = False and fs = Map.empty]
  show ?thesis
    using h3 h4 by (simp add: sample_read_opf sample_find_manifest)
qed

section \<open>Reading order\<close>

lemma convert_html_to_markdown_append:
  "convert_html_to_markdown env epub od fp mc im =
     mc @ (case convert_document env epub od im fp of None \<Rightarrow> [] | Some f \<Rightarrow> [f])"
  by (simp add: convert_html_to_markdown_def split: option.splits)

lemma convert_spine_eq:
  "convert_spine env epub od im ci refs mc =
     mc @ List.map_filter (convert_document env epub od im) (List.map_filter (map_of ci) refs)"
  by (induction refs arbitrary: mc)
    (simp_all add: map_filter_simps convert_html_to_markdown_append split: option.splits)

lemma convert_manifest_eq:
  "convert_manifest env epub od im ci mc =
     mc @ List.map_filter (convert_document env epub od im) (map snd ci)"
  by (induction ci arbitrary: mc)
    (simp_all add: map_filter_simps convert_html_to_markdown_append split: option.splits)

lemma convert_documents_append:
  "convert_documents env epub od im refs ci mc = mc @ convert_documents env epub od im refs ci []"
  by (simp add: convert_documents_def convert_spine_eq convert_manifest_eq)

lemma sample_collect_items:
  "collect_items sample_items ([], []) =
     Inr ([(Some ''a'', Some ''a.xhtml''), (Some ''b'', Some ''b.xhtml'')],
          [(Some ''i1'', Some ''img/pic.png'')])"
  by (simp add: sample_items_def sample_item_def get_attr_def)

lemma filter_removeAll_out: "\<not> P k \<Longrightarrow> filter P (removeAll k xs) = filter P xs"
  by (induction xs) auto

lemma filter_conj_removeAll: "filter (\<lambda>x. P x \<and> x \<noteq> k) xs = filter P (removeAll k xs)"
  by (induction xs) auto

lemma keys_assign_all:
  "map fst (assign_all d ps) =
     map fst d @ filter (\<lambda>k. k \<notin> set (map fst d)) (first_seen (map fst ps))"
  unfolding assign_all_def
proof (induction ps arbitrary: d)
  case Nil
  then show ?case by simp
next
  case (Cons p ps)
  let ?k = "fst p"
  let ?d' = "AList.update ?k (snd p) d"
  show ?case
  proof (cases "?k \<in> set (map fst d)")
    case True
    then have k: "map fst ?d' = map fst d"
      by (simp add: update_keys)
    have "map fst (foldl (\<lambda>d p. AList.update (fst p) (snd p) d) ?d' ps)
        = map fst d @ filter (\<lambda>x. x \<notin> set (map fst d)) (first_seen (map fst ps))"
      using Cons.IH [of ?d'] by (simp only: k)
    then show ?thesis
      using True by (simp add: filter_removeAll_out)
  next
    case False
    then have k: "map fst ?d' = map fst d @ [?k]"
      by (simp add: update_keys)
    have "map fst (foldl (\<lambda>d p. AList.update (fst p) (snd p) d) ?d' ps)
        = (map fst d @ [?k])
          @ filter (\<lambda>x. x \<notin> set (map fst d @ [?k])) (first_seen (map fst ps))"
      using Cons.IH [of ?d'] by (simp only: k)
    also have "(\<lambda>x. x \<notin> set (map fst d @ [?k])) = (\<lambda>x. x \<notin> set (map fst d) \<and> x \<noteq> ?k)"
      by auto
    finally show ?thesis
      using False by (simp add: filter_conj_removeAll)
  qed
qed

lemma distinct_first_seen: "distinct (first_seen xs)"
  by (induction xs) (simp_all add: distinct_removeAll)

lemma alist_from_keys:
  "distinct (map fst al) \<Longrightarrow> al = map (\<lambda>k. (k, the (map_of al k))) (map fst al)"
proof (induction al)
  case Nil
  then show ?case by simp
next
  case (Cons p al)
  obtain k v where p: "p = (k, v)" by (cases p)
  from Cons.prems p have k: "k \<notin> fst ` set al" and d: "distinct (map fst al)"
    by simp_all
  have "map (\<lambda>x. (x, the (map_of (p # al) x))) (map fst al)
      = map (\<lambda>x. (x, the (map_of al x))) (map fst al)"
    using k by (intro map_cong refl) (auto simp: p)
  also have "\<dots> = al"
    using Cons.IH [OF d] by simp
  finally show ?case
    by (simp add: p)
qed

lemma assign_all_first_seen:
  "assign_all [] ps =
     map (\<lambda>k. (k, the (map_of (rev ps) k))) (first_seen (map fst ps))"
proof -
  have k: "map fst (assign_all [] ps) = first_seen (map fst ps)"
    by (simp add: keys_assign_all)
  then have "distinct (map fst (assign_all [] ps))"
    by (simp add: distinct_first_seen)
  from alist_from_keys [OF this] show ?thesis
    by (simp add: k map_of_assign_all_Nil)
qed

text \<open>
  Claim C1, as the code has it. With a non-empty spine the fragments appended to
  \<^verbatim>\<open>markdown_content\<close> are those of the spine's \<^verbatim>\<open>idref\<close>s, in the order of the spine,
  restricted to the identifiers of content documents of the manifest (and to the
  documents whose conversion gives a fragment). With an empty spine the loop goes over
  the dictionary \<^verbatim>\<open>content_items\<close>: one document for each distinct identifier of a content
  document, in the order in which the identifiers first occur in the manifest, each read
  from the \<^verbatim>\<open>href\<close> of the last item with that identifier. When the identifiers are
  distinct this is the order of the manifest's content documents.
\<close>

theorem fragments_in_reading_order:
  assumes "collect_items items ([], []) = Inr (content_items, image_items)"
  shows "(itemrefs \<noteq> [] \<longrightarrow>
            convert_documents env epub opf_dir image_map itemrefs content_items markdown_content =
              markdown_content
              @ List.map_filter (convert_document env epub opf_dir image_map)
                  (List.map_filter (map_of (rev (content_documents items))) itemrefs))
       \<and> (itemrefs = [] \<longrightarrow>
            convert_documents env epub opf_dir image_map itemrefs content_items markdown_content =
              markdown_content
              @ List.map_filter (convert_document env epub opf_dir image_map)
                  (map (\<lambda>item_id. the (map_of (rev (content_documents items)) item_id))
                     (first_seen (map fst (content_documents items)))))
       \<and> (itemrefs = [] \<and> distinct (map fst (content_documents items)) \<longrightarrow>
            convert_documents env epub opf_dir image_map itemrefs content_items markdown_content =
              markdown_content
              @ List.map_filter (convert_document env epub opf_dir image_map)
                  (map snd (content_documents items)))"
proof -
  have ci: "content_items = assign_all [] (content_documents items)"
    using assms by (rule collect_items_Inr)
  have m: "map_of content_items = map_of (rev (content_documents items))"
    by (simp add: ci map_of_assign_all_Nil)
  have s: "map snd content_items =
      map (\<lambda>item_id. the (map_of (rev (content_documents items)) item_id))
        (first_seen (map fst (content_documents items)))"
    by (simp add: ci assign_all_first_seen comp_def)
  have d: "distinct (map fst (content_documents items)) \<Longrightarrow>
      content_items = content_documents items"
    using assign_all_distinct [of "[]" "content_documents items"] by (simp add: ci)
  show ?thesis
  proof (intro conjI impI)
    assume "itemrefs \<noteq> []"
    then show "convert_documents env epub opf_dir image_map itemrefs content_items markdown_content =
              markdown_content
              @ List.map_filter (convert_document env epub opf_dir image_map)
                  (List.map_filter (map_of (rev (content_documents items))) itemrefs)"
      by (simp add: convert_documents_def convert_spine_eq m)
  next
    assume "itemrefs = []"
    then show "convert_documents env epub opf_dir image_map itemrefs content_items markdown_content =
              markdown_content
              @ List.map_filter (convert_document env epub opf_dir image_map)
                  (map (\<lambda>item_id. the (map_of (rev (content_documents items)) item_id))
                     (first_seen (map fst (content_documents items))))"
      by (simp add: convert_documents_def convert_manifest_eq s)
  next
    assume "itemrefs = [] \<and> distinct (map fst (content_documents items))"
    then show "convert_documents env epub opf_dir image_map itemrefs content_items markdown_content =
              markdown_content
              @ List.map_filter (convert_document env epub opf_dir image_map)
                  (map snd (content_documents items))"
      using d by (simp add: convert_documents_def convert_manifest_eq)
  qed
qed

theorem fragments_in_reading_order_witness:
  "collect_items sample_items ([], []) =
     Inr ([(Some ''a'', Some ''a.xhtml''), (Some ''b'', Some ''b.xhtml'')],
          [(Some ''i1'', Some ''img/pic.png'')])
   \<and> [Some ''b'', Some ''x'', Some ''a''] \<noteq> []
   \<and> convert_documents (sample_env (sample_package [] sample_items [])) sample_epub ''OEBPS/''
        sample_image_map [Some ''b'', Some ''x'', Some ''a'']
        [(Some ''a'', Some ''a.xhtml''), (Some ''b'', Some ''b.xhtml'')] []
      = [''<h1>B</h1><img src=/m/i1.png></img>'', ''<h2>A</h2><img src=/m/i1.png></img>'']
   \<and> distinct (map fst (content_documents sample_items))
   \<and> convert_documents (sample_env (sample_package [] sample_items [])) sample_epub ''OEBPS/''
        sample_image_map [] [(Some ''a'', Some ''a.xhtml''), (Some ''b'', Some ''b.xhtml'')] []
      = [''<h2>A</h2><img src=/m/i1.png></img>'', ''<h1>B</h1><img src=/m/i1.png></img>'']
   \<and> collect_items repeated_items ([], []) =
     Inr ([(Some ''a'', Some ''c.xhtml''), (Some ''b'', Some ''b.xhtml'')], [])
   \<and> convert_documents (sample_env (sample_package [] repeated_items [])) sample_epub ''OEBPS/''
        sample_image_map [] [(Some ''a'', Some ''c.xhtml''), (Some ''b'', Some ''b.xhtml'')] []
      = [''<img src=/m/i1.png></img>'', ''<h1>B</h1><img src=/m/i1.png></img>'']"
proof -
  have d: "content_documents sample_items
      = [(Some ''a'', Some ''a.xhtml''), (Some ''b'', Some ''b.xhtml'')]"
    by (simp add: content_documents_def sample_items_def sample_item_def get_attr_def
        is_content_def id_href_def)
  have r: "content_documents repeated_items
      = [(Some ''a'', Some ''a.xhtml''), (Some ''b'', Some ''b.xhtml''),
         (Some ''a'', Some ''c.xhtml'')]"
    by (simp add: content_documents_def repeated_items_def sample_item_def get_attr_def
        is_content_def id_href_def)
  have rc: "collect_items repeated_items ([], []) =
     Inr ([(Some ''a'', Some ''c.xhtml''), (Some ''b'', Some ''b.xhtml'')], [])"
    by (simp add: repeated_items_def sample_item_def get_attr_def)
  have s: "List.map_filter
        (convert_document (sample_env (sample_package [] sample_items [])) sample_epub ''OEBPS/''
           sample_image_map)
        (List.map_filter (map_of (rev (content_documents sample_items)))
           [Some ''b'', Some ''x'', Some ''a''])
      = [''<h1>B</h1><img src=/m/i1.png></img>'', ''<h2>A</h2><img src=/m/i1.png></img>'']"
    unfolding d by code_simp
  have m: "List.map_filter
        (convert_document (sample_env (sample_package [] sample_items [])) sample_epub ''OEBPS/''
           sample_image_map)
        (map snd (content_documents sample_items))
      = [''<h2>A</h2><img src=/m/i1.png></img>'', ''<h1>B</h1><img src=/m/i1.png></img>'']"
    unfolding d by code_simp
  have f: "List.map_filter
        (convert_document (sample_env (sample_package [] repeated_items [])) sample_epub ''OEBPS/''
           sample_image_map)
        (map (\<lambda>item_id. the (map_of (rev (content_documents repeated_items)) item_id))
           (first_seen (map fst (content_documents repeated_items))))
      = [''<img src=/m/i1.png></img>'', ''<h1>B</h1><img src=/m/i1.png></img>'']"
    unfolding r by code_simp
  have dist: "distinct (map fst (content_documents sample_items))"
    unfolding d by simp
  note A = fragments_in_reading_order [OF sample_collect_items,
      of "[Some ''b'', Some ''x'', Some ''a'']" "sample_env (sample_package [] sample_items [])"
         sample_epub "''OEBPS/''" sample_image_map "[]"]
  note B = fragments_in_reading_order [OF sample_collect_items,
      of "[]" "sample_env (sample_package [] sample_items [])"
         sample_epub "''OEBPS/''" sample_image_map "[]"]
  note C = fragments_in_reading_order [OF rc,
      of "[]" "sample_env (sample_package [] repeated_items [])"
         sample_epub "''OEBPS/''" sample_image_map "[]"]
  have ne: "[Some ''b'', Some ''x'', Some ''a''] \<noteq> []"
    by simp
  from A [THEN conjunct1, rule_format, OF ne]
  have a: "convert_documents (sample_env (sample_package [] sample_items [])) sample_epub
        ''OEBPS/'' sample_image_map [Some ''b'', Some ''x'', Some ''a'']
        [(Some ''a'', Some ''a.xhtml''), (Some ''b'', Some ''b.xhtml'')] []
      = [''<h1>B</h1><img src=/m/i1.png></img>'', ''<h2>A</h2><img src=/m/i1.png></img>'']"
    by (simp only: s append_Nil)
  from B [THEN conjunct2, THEN conjunct2, rule_format, OF conjI [OF refl dist]]
  have b: "convert_documents (sample_env (sample_package [] sample_items []))
        sample_epub ''OEBPS/'' sample_image_map []
        [(Some ''a'', Some ''a.xhtml''), (Some ''b'', Some ''b.xhtml'')] []
      = [''<h2>A</h2><img src=/m/i1.png></img>'', ''<h1>B</h1><img src=/m/i1.png></img>'']"
    by (simp only: m append_Nil)
  from C [THEN conjunct2, THEN conjunct1, rule_format, OF refl]
  have c: "convert_documents (sample_env (sample_package [] repeated_items []))
        sample_epub ''OEBPS/'' sample_image_map []
        [(Some ''a'', Some ''c.xhtml''), (Some ''b'', Some ''b.xhtml'')] []
      = [''<img src=/m/i1.png></img>'', ''<h1>B</h1><img src=/m/i1.png></img>'']"
    by (simp only: f append_Nil)
  from sample_collect_items ne a dist b rc c show ?thesis
    by (intro conjI)
qed

text \<open>
  Claim C1 as stated fails without a spine on a manifest whose first and third content
  documents have one identifier: the text returned has the third document, then the
  second, where the manifest's content documents in their order give the first, the
  second and the third.
\<close>

theorem manifest_order_counterexample:
  "get_itemrefs (sample_package [] repeated_items []) = []
   \<and> fst (extract_content_from_epub (sample_env (sample_package [] repeated_items []))
            (Zip sample_epub) ''p'' (Some ''/m'') False Map.empty)
       = Some (''<img src=gone/pic.png></img>'' @ [NL] @ ''<h1>B</h1><img src=img/pic.png></img>'')
   \<and> List.map_filter
         (convert_document (sample_env (sample_package [] repeated_items [])) sample_epub
            ''OEBPS/'' Map.empty)
         (map snd (content_documents repeated_items))
       = [''<h2>A</h2><img src=pic.png></img>'', ''<h1>B</h1><img src=img/pic.png></img>'',
          ''<img src=gone/pic.png></img>'']"
  by code_simp

section \<open>The assembled document\<close>


lemma fst_save_image_indep:
  "fst st = fst st' \<Longrightarrow>
     fst (save_image env epub od idir md item st) = fst (save_image env epub od idir md item st')"
  by (simp add: save_image_def Let_def split: option.splits)

lemma fst_save_images_indep:
  "fst st = fst st' \<Longrightarrow>
     fst (save_images env epub od idir md items st) = fst (save_images env epub od idir md items st')"
proof (induction items arbitrary: st st')
  case Nil
  then show ?case by simp
next
  case (Cons item items)
  show ?case
    using Cons.IH [OF fst_save_image_indep [OF Cons.prems]] by simp
qed




lemma extract_archive_ok:
  assumes "read_opf env epub = Inr (opf_path, opf_root)"
      and "find_elem (NS_opf @ ''manifest'') opf_root = Some manifest"
      and "collect_items (findall_elem (NS_opf @ ''item'') manifest) ([], [])
             = Inr (content_items, image_items)"
      and "can_open env output_path"
      and "save \<longrightarrow> loop_running env"
  shows "fst (extract_archive env epub output_path image_dir md_img_dir save fs) =
     Inr (universal_newlines (join_with [NL]
       (header (get_title opf_root) (get_author opf_root)
        @ convert_documents env epub (get_opf_dir opf_path)
            (fst (save_images env epub (get_opf_dir opf_path) image_dir md_img_dir image_items
               (Map.empty, fs)))
            (get_itemrefs opf_root) content_items [])))"
  using assms
  by (simp add: extract_archive_def write_output_def Let_def
      convert_documents_append [where mc = "header (get_title opf_root) (get_author opf_root)"])

lemma extract_archive_written:
  assumes "read_opf env epub = Inr (opf_path, opf_root)"
      and "find_elem (NS_opf @ ''manifest'') opf_root = Some manifest"
      and "collect_items (findall_elem (NS_opf @ ''item'') manifest) ([], [])
             = Inr (content_items, image_items)"
      and "can_open env output_path"
      and "save"
  shows "snd (extract_archive env epub output_path image_dir md_img_dir save fs)
           (file_key env output_path) =
     Some (join_with [NL]
       (header (get_title opf_root) (get_author opf_root)
        @ convert_documents env epub (get_opf_dir opf_path)
            (fst (save_images env epub (get_opf_dir opf_path) image_dir md_img_dir image_items
               (Map.empty, fs)))
            (get_itemrefs opf_root) content_items []))"
  using assms
  by (simp add: extract_archive_def write_output_def Let_def
      convert_documents_append [where mc = "header (get_title opf_root) (get_author opf_root)"])

lemma no_metadata_text:
  "find_elem (NS_opf @ ''metadata'') opf_root = Some metadata \<Longrightarrow>
   find_elem t metadata = None \<Longrightarrow> metadata_text t opf_root = []"
  "find_elem (NS_opf @ ''metadata'') opf_root = None \<Longrightarrow> metadata_text t opf_root = []"
  by (simp_all add: metadata_text_def)

lemma no_title_creator_header:
  "no_title_creator opf_root \<Longrightarrow> header (get_title opf_root) (get_author opf_root) = []"
  by (auto simp: no_title_creator_def header_def get_title_def get_author_def metadata_text_def
      split: option.splits)

lemma extract_content_from_epub_Zip:
  "extract_content_from_epub env (Zip epub) product_code md_img_dir save fs =
     (case extract_archive env epub (get_output_path env product_code save)
             (get_image_dir env product_code save) (get_md_img_dir product_code md_img_dir)
             save fs of
        (Inl e, fs') \<Rightarrow> (None, fs')
      | (Inr markdown_text, fs') \<Rightarrow> (Some markdown_text, fs'))"
  by (simp add: extract_content_from_epub_def extract_try_def)

text \<open>
  Claim C8. When the archive is read to the end (the package descriptor and the manifest
  are found, every item has a media type, the output file can be written, and on the
  saving path an event loop runs), the text returned is the pieces joined by single
  newlines: a line \<^verbatim>\<open># title\<close> exactly when the title is not empty, then a bold author
  line exactly when the author is not empty, then the fragments; the file written on
  the saving path holds the same. The text returned has been read back from the file, so
  carriage returns in it have become newlines. For a package descriptor without title
  and creator elements the text is the fragments alone.
\<close>

theorem assembled_output:
  assumes "read_opf env epub = Inr (opf_path, opf_root)"
      and "find_elem (NS_opf @ ''manifest'') opf_root = Some manifest"
      and "collect_items (findall_elem (NS_opf @ ''item'') manifest) ([], [])
             = Inr (content_items, image_items)"
      and "can_open env (get_output_path env product_code save)"
      and "save \<longrightarrow> loop_running env"
  shows "fst (extract_content_from_epub env (Zip epub) product_code md_img_dir save fs) =
           Some (universal_newlines (join_with [NL]
             ((if get_title opf_root \<noteq> [] then [''# '' @ get_title opf_root @ [NL]] else [])
              @ (if get_author opf_root \<noteq> []
                 then [''**'' @ author_label @ get_author opf_root @ ''**'' @ [NL]] else [])
              @ fragments env epub opf_path opf_root (get_image_dir env product_code save)
                  (get_md_img_dir product_code md_img_dir) content_items image_items)))
         \<and> (save \<longrightarrow>
              snd (extract_content_from_epub env (Zip epub) product_code md_img_dir save fs)
                  (file_key env (get_output_path env product_code save)) =
                Some (join_with [NL]
                  ((if get_title opf_root \<noteq> [] then [''# '' @ get_title opf_root @ [NL]] else [])
                   @ (if get_author opf_root \<noteq> []
                      then [''**'' @ author_label @ get_author opf_root @ ''**'' @ [NL]] else [])
                   @ fragments env epub opf_path opf_root (get_image_dir env product_code save)
                       (get_md_img_dir product_code md_img_dir) content_items image_items)))
         \<and> (no_title_creator opf_root \<longrightarrow>
              fst (extract_content_from_epub env (Zip epub) product_code md_img_dir save fs) =
                Some (universal_newlines (join_with [NL]
                  (fragments env epub opf_path opf_root (get_image_dir env product_code save)
                     (get_md_img_dir product_code md_img_dir) content_items image_items))))"
proof -
  let ?out = "get_output_path env product_code save"
  let ?idir = "get_image_dir env product_code save"
  let ?md = "get_md_img_dir product_code md_img_dir"
  let ?r = "extract_archive env epub ?out ?idir ?md save fs"
  have im: "\<And>idir md.
      fst (save_images env epub (get_opf_dir opf_path) idir md image_items (Map.empty, fs))
      = fst (save_images env epub (get_opf_dir opf_path) idir md image_items
               (Map.empty, Map.empty))"
    by (rule fst_save_images_indep) simp
  have h: "header (get_title opf_root) (get_author opf_root) =
      (if get_title opf_root \<noteq> [] then [''# '' @ get_title opf_root @ [NL]] else [])
      @ (if get_author opf_root \<noteq> []
         then [''**'' @ author_label @ get_author opf_root @ ''**'' @ [NL]] else [])"
    by (simp add: header_def title_line_def author_line_def)
  let ?fragments = "fragments env epub opf_path opf_root ?idir ?md content_items image_items"
  have 1: "fst ?r = Inr (universal_newlines (join_with [NL]
       (header (get_title opf_root) (get_author opf_root) @ ?fragments)))"
    using extract_archive_ok [OF assms(1,2,3,4,5), of ?idir ?md fs]
    by (simp add: fragments_def im)
  have 2: "snd ?r (file_key env ?out) = Some (join_with [NL]
       (header (get_title opf_root) (get_author opf_root) @ ?fragments))" if save
    using extract_archive_written [OF assms(1,2,3,4) that, of ?idir ?md fs]
    by (simp add: fragments_def im)
  have fst_r: "fst (extract_content_from_epub env (Zip epub) product_code md_img_dir save fs) =
      (case fst ?r of Inl e \<Rightarrow> None | Inr t \<Rightarrow> Some t)"
    and snd_r: "snd (extract_content_from_epub env (Zip epub) product_code md_img_dir save fs) = snd ?r"
    by (simp_all add: extract_content_from_epub_Zip split: prod.splits sum.splits)
  show ?thesis
  proof (intro conjI impI)
    show "fst (extract_content_from_epub env (Zip epub) product_code md_img_dir save fs) =
           Some (universal_newlines (join_with [NL]
             ((if get_title opf_root \<noteq> [] then [''# '' @ get_title opf_root @ [NL]] else [])
              @ (if get_author opf_root \<noteq> []
                 then [''**'' @ author_label @ get_author opf_root @ ''**'' @ [NL]] else [])
              @ ?fragments)))"
      unfolding fst_r 1 h by simp
  next
    assume save
    from 2 [OF this]
    show "snd (extract_content_from_epub env (Zip epub) product_code md_img_dir save fs)
            (file_key env ?out) =
           Some (join_with [NL]
             ((if get_title opf_root \<noteq> [] then [''# '' @ get_title opf_root @ [NL]] else [])
              @ (if get_author opf_root \<noteq> []
                 then [''**'' @ author_label @ get_author opf_root @ ''**'' @ [NL]] else [])
              @ ?fragments))"
      unfolding snd_r h by simp
  next
    assume "no_title_creator opf_root"
    then have "header (get_title opf_root) (get_author opf_root) = []"
      by (rule no_title_creator_header)
    then show "fst (extract_content_from_epub env (Zip epub) product_code md_img_dir save fs) =
           Some (universal_newlines (join_with [NL] ?fragments))"
      unfolding fst_r 1 by simp
  qed
qed

lemma sample_find_manifest_md:
  "find_elem (NS_opf @ ''manifest'') (sample_package sample_metadata items idrefs) =
     Some (sample_manifest items)"
  by (simp add: find_elem_def findall_elem_def sample_package_def sample_manifest_def
      sample_metadata_def NS_opf_def NS_dc_def)

lemma sample_findall_items:
  "findall_elem (NS_opf @ ''item'') (sample_manifest sample_items) = sample_items"
  by (simp add: findall_elem_def sample_manifest_def sample_items_def sample_item_def)

theorem assembled_output_witness:
  "fst (extract_content_from_epub
          (sample_env (sample_package sample_metadata sample_items [''b'', ''a'']))
          (Zip sample_epub) ''p'' (Some ''/m'') True Map.empty)
     = Some (''# T'' @ [NL, NL] @ ''**'' @ author_label @ ''Ann**'' @ [NL, NL]
             @ ''<h1>B</h1><img src=/m/i1.png></img>'' @ [NL]
             @ ''<h2>A</h2><img src=/m/i1.png></img>'')
   \<and> snd (extract_content_from_epub
          (sample_env (sample_package sample_metadata sample_items [''b'', ''a'']))
          (Zip sample_epub) ''p'' (Some ''/m'') True Map.empty) ''/w/data/p/epub/p.epub.md''
     = Some (''# T'' @ [NL, NL] @ ''**'' @ author_label @ ''Ann**'' @ [NL, NL]
             @ ''<h1>B</h1><img src=/m/i1.png></img>'' @ [NL]
             @ ''<h2>A</h2><img src=/m/i1.png></img>'')
   \<and> no_title_creator (sample_package [] sample_items [''b'', ''a''])
   \<and> fst (extract_content_from_epub
          (sample_env (sample_package [] sample_items [''b'', ''a'']))
          (Zip sample_epub) ''p'' (Some ''/m'') True Map.empty)
     = Some (''<h1>B</h1><img src=/m/i1.png></img>'' @ [NL]
             @ ''<h2>A</h2><img src=/m/i1.png></img>'')"
proof -
  let ?P = "sample_package sample_metadata sample_items [''b'', ''a'']"
  let ?Q = "sample_package [] sample_items [''b'', ''a'']"
  have c: "collect_items (findall_elem (NS_opf @ ''item'') (sample_manifest sample_items)) ([], [])
      = Inr ([(Some ''a'', Some ''a.xhtml''), (Some ''b'', Some ''b.xhtml'')],
          [(Some ''i1'', Some ''img/pic.png'')])"
    by (simp add: sample_findall_items sample_collect_items)
  have o: "\<And>pkg. can_open (sample_env pkg) (get_output_path (sample_env pkg) ''p'' True)"
    and l: "\<And>pkg. True \<longrightarrow> loop_running (sample_env pkg)"
    by (simp_all add: sample_env_def)
  have out: "\<And>pkg. file_key (sample_env pkg) (get_output_path (sample_env pkg) ''p'' True)
      = ''/w/data/p/epub/p.epub.md''"
    by (simp add: file_key_def get_output_path_def pure_path_def path_join_def sample_env_def)
  have t: "get_title ?P = ''T''" "get_author ?P = ''Ann''"
    by code_simp+
  have n: "no_title_creator ?Q"
    by code_simp
  have u: "get_title ?Q = []" "get_author ?Q = []"
    by code_simp+
  have f: "fragments (sample_env ?P) sample_epub ''OEBPS/content.opf'' ?P
         (get_image_dir (sample_env ?P) ''p'' True) (get_md_img_dir ''p'' (Some ''/m''))
         [(Some ''a'', Some ''a.xhtml''), (Some ''b'', Some ''b.xhtml'')]
         [(Some ''i1'', Some ''img/pic.png'')]
       = [''<h1>B</h1><img src=/m/i1.png></img>'', ''<h2>A</h2><img src=/m/i1.png></img>'']"
    by code_simp
  have g: "fragments (sample_env ?Q) sample_epub ''OEBPS/content.opf'' ?Q
         (get_image_dir (sample_env ?Q) ''p'' True) (get_md_img_dir ''p'' (Some ''/m''))
         [(Some ''a'', Some ''a.xhtml''), (Some ''b'', Some ''b.xhtml'')]
         [(Some ''i1'', Some ''img/pic.png'')]
       = [''<h1>B</h1><img src=/m/i1.png></img>'', ''<h2>A</h2><img src=/m/i1.png></img>'']"
    by code_simp
  from assembled_output [OF sample_read_opf [of ?P]
        sample_find_manifest_md [of sample_items "[''b'', ''a'']"] c o l,
      where md_img_dir = "Some ''/m''" and fs = Map.empty]
  have p: "fst (extract_content_from_epub (sample_env ?P) (Zip sample_epub) ''p'' (Some ''/m'')
                  True Map.empty)
             = Some (''# T'' @ [NL, NL] @ ''**'' @ author_label @ ''Ann**'' @ [NL, NL]
                     @ ''<h1>B</h1><img src=/m/i1.png></img>'' @ [NL]
                     @ ''<h2>A</h2><img src=/m/i1.png></img>'')"
    and w: "snd (extract_content_from_epub (sample_env ?P) (Zip sample_epub) ''p'' (Some ''/m'')
                  True Map.empty) ''/w/data/p/epub/p.epub.md''
             = Some (''# T'' @ [NL, NL] @ ''**'' @ author_label @ ''Ann**'' @ [NL, NL]
                     @ ''<h1>B</h1><img src=/m/i1.png></img>'' @ [NL]
                     @ ''<h2>A</h2><img src=/m/i1.png></img>'')"
    by (simp_all add: t f out author_label_def)
  from assembled_output [OF sample_read_opf [of ?Q]
        sample_find_manifest [of sample_items "[''b'', ''a'']"] c o l,
      where md_img_dir = "Some ''/m''" and fs = Map.empty] n
  have q: "fst (extract_content_from_epub (sample_env ?Q) (Zip sample_epub) ''p'' (Some ''/m'')
                  True Map.empty)
             = Some (''<h1>B</h1><img src=/m/i1.png></img>'' @ [NL]
                     @ ''<h2>A</h2><img src=/m/i1.png></img>'')"
    by (simp add: g u)
  from p w n q show ?thesis
    by simp
qed

section \<open>A missing image\<close>











section \<open>Asset names\<close>

text \<open>
  An image that is saved is recorded under its \<^verbatim>\<open>href\<close> and under its base name with the
  path made of the base path, the identifier and the extension of the \<^verbatim>\<open>href\<close>.
\<close>

lemma save_image_records:
  assumes "can_open env (path_join image_dir (new_image_name image_id image_href))"
      and "epub (path_join opf_dir image_href) = Some data"
  shows "fst (save_image env epub opf_dir image_dir md_img_dir (image_id, Some image_href) st)
           image_href = Some (md_img_dir @ ''/'' @ fmt image_id @ splitext_ext image_href)"
    and "fst (save_image env epub opf_dir image_dir md_img_dir (image_id, Some image_href) st)
           (basename image_href) = Some (md_img_dir @ ''/'' @ fmt image_id @ splitext_ext image_href)"
  using assms by (simp_all add: save_image_def md_image_path_def new_image_name_def Let_def)

text \<open>
  Claim C6 at a manifest with the image items \<^verbatim>\<open>cover.png\<close> (href \<^verbatim>\<open>a/cover\<close>) and
  \<^verbatim>\<open>cover\<close> (href \<^verbatim>\<open>b/cover.png\<close>): the identifiers differ, both asset names are
  \<^verbatim>\<open>cover.png\<close>, both references are rewritten to the same path, and the file there
  holds the second image.
\<close>

theorem asset_name_collision:
  "collect_items
      [sample_item ''cover.png'' ''a/cover'' ''image/png'',
       sample_item ''cover'' ''b/cover.png'' ''image/png''] ([], [])
     = Inr ([], [(Some ''cover.png'', Some ''a/cover''), (Some ''cover'', Some ''b/cover.png'')])
   \<and> new_image_name (Some ''cover.png'') ''a/cover'' = ''cover.png''
   \<and> new_image_name (Some ''cover'') ''b/cover.png'' = ''cover.png''
   \<and> fst (extracted (sample_env (sample_package [] [] [])) sample_epub ''OEBPS/content.opf'' ''p''
             None True [(Some ''cover.png'', Some ''a/cover''), (Some ''cover'', Some ''b/cover.png'')]
             Map.empty) ''a/cover''
       = Some ''/books/p/images/cover.png''
   \<and> fst (extracted (sample_env (sample_package [] [] [])) sample_epub ''OEBPS/content.opf'' ''p''
             None True [(Some ''cover.png'', Some ''a/cover''), (Some ''cover'', Some ''b/cover.png'')]
             Map.empty) ''b/cover.png''
       = Some ''/books/p/images/cover.png''
   \<and> snd (extracted (sample_env (sample_package [] [] [])) sample_epub ''OEBPS/content.opf'' ''p''
             None True [(Some ''cover.png'', Some ''a/cover''), (Some ''cover'', Some ''b/cover.png'')]
             Map.empty) ''/w/data/p/images/cover.png''
       = Some ''SECOND''"
  by code_simp

text \<open>
  The same collision lets an image item whose entry is missing empty the file of an image
  saved before it: \<^verbatim>\<open>open(save_path, 'wb')\<close> comes before \<^verbatim>\<open>epub.read\<close>.
\<close>

lemma missing_image_truncates:
  "new_image_name (Some ''cover'') ''b/cover.png'' = new_image_name (Some ''cover.png'') ''gone/cover''
   \<and> sample_epub (path_join ''OEBPS/'' ''gone/cover'') = None
   \<and> snd (extracted (sample_env (sample_package [] [] [])) sample_epub ''OEBPS/content.opf'' ''p''
             None True [(Some ''cover'', Some ''b/cover.png'')] Map.empty)
         ''/w/data/p/images/cover.png''
       = Some ''SECOND''
   \<and> snd (extracted (sample_env (sample_package [] [] [])) sample_epub ''OEBPS/content.opf'' ''p''
             None True [(Some ''cover'', Some ''b/cover.png''), (Some ''cover.png'', Some ''gone/cover'')]
             Map.empty) ''/w/data/p/images/cover.png''
       = Some []"
  by code_simp

end
